theory Spec2Isabelle
  imports Main "HOL-Library.Sublist" "HOL-Library.Word"
begin

chapter \<open>KubeBao: a shallow embedding of the KMS plugin, the CSI provider and the controllers\<close>

text \<open>
  Conventions of the embedding.
  \<^item> A Go \<open>string\<close> and a Go \<open>[]byte\<close> are byte lists (\<open>string\<close>); \<open>len\<close> is \<open>length\<close> and
    the slice \<open>s[i:j]\<close> is \<open>take (j - i) (drop i s)\<close> where the source keeps it in range.
  \<^item> A Go \<open>error\<close> is its message. A function that can fail returns \<open>goerror + 'a\<close>;
    \<open>Inl (Err msg)\<close> is a returned error, \<open>Inl (Panic msg)\<close> a run-time panic. A function
    that cannot panic returns \<open>string + 'a\<close> or, with no result, \<open>string option\<close>.
  \<^item> A Go map that is only looked up is an association list read with \<open>map_of\<close>; a nil map
    is the empty list. Where a \<open>range\<close> loop visits a map, the order of the visit is an input
    of the model, since Go leaves it unspecified.
  \<^item> \<open>time.Time\<close> is the number of nanoseconds since Go's zero instant (so \<open>IsZero\<close> is
    \<open>= 0\<close>), an unbounded integer, and \<open>Time.Add\<close> is addition. \<open>time.Duration\<close> is an \<open>int64\<close>
    number of nanoseconds: the product \<open>time.Duration(n) * time.Second\<close> wraps around
    (\<open>DurationSeconds\<close>) and \<open>Time.Sub\<close> saturates (\<open>Time_Sub\<close>). A Go \<open>int\<close> has 64 bits.
  \<^item> Functions of Go's standard library and of third-party packages (\<open>fmt\<close>, \<open>encoding/json\<close>,
    \<open>crypto/sha256\<close>, \<open>time.ParseDuration\<close>, the YAML decoder, the OpenBao API client, the
    Kubernetes client) are not code of this repository; they are parameters of the models,
    most of them fields of the environment record passed to each function.
\<close>

section \<open>Go values\<close>

datatype goerror = Err string | Panic string

text \<open>
  A value of type \<open>interface{}\<close> as the code inspects it. The decoder of the API client
  yields a number as a \<open>json.Number\<close>, which keeps its text (\<open>JNumber\<close>); \<open>JFloat64 v\<close> is a
  \<open>float64\<close> that the conversion \<open>int(...)\<close> turns into \<open>v\<close>.
\<close>

datatype jvalue =
    JNull
  | JBool bool
  | JNumber string
  | JFloat64 int
  | JString string
  | JArray "jvalue list"
  | JObject "(string \<times> jvalue) list"

type_synonym gotime = int
type_synonym duration = int

definition Second :: duration where
  "Second = 1000000000"

definition Minute :: duration where
  "Minute = 60 * Second"

definition Hour :: duration where
  "Hour = 60 * Minute"

text \<open>
  The arithmetic of \<open>int64\<close>: \<open>wrap64\<close> is the two's-complement value of a product,
  \<open>sat64\<close> the saturation of \<open>Time.Sub\<close> at the least and the greatest duration.
\<close>

definition wrap64 :: "int \<Rightarrow> int" where
  "wrap64 x = (x + 2 ^ 63) mod 2 ^ 64 - 2 ^ 63"

definition sat64 :: "int \<Rightarrow> int" where
  "sat64 x = max (- (2 ^ 63)) (min (2 ^ 63 - 1) x)"

text \<open>\<open>time.Duration(n) * time.Second\<close> and \<open>t.Sub(u)\<close>.\<close>

definition DurationSeconds :: "int \<Rightarrow> duration" where
  "DurationSeconds n = wrap64 (n * Second)"

definition Time_Sub :: "gotime \<Rightarrow> gotime \<Rightarrow> duration" where
  "Time_Sub t u = sat64 (t - u)"

text \<open>The double quote and the line feed, as strings.\<close>

definition dquote :: string where
  "dquote = [CHR 0x22]"

definition newline :: string where
  "newline = [CHR 0x0A]"

text \<open>\<open>fmt.Sprintf("%d", n)\<close> for a Go \<open>int\<close>.\<close>

definition digitChar :: "nat \<Rightarrow> char" where
  "digitChar d = char_of (48 + d)"

fun fmtNat :: "nat \<Rightarrow> string" where
  "fmtNat n = (if n < 10 then [digitChar n] else fmtNat (n div 10) @ [digitChar (n mod 10)])"

declare fmtNat.simps [simp del]

definition fmtInt :: "int \<Rightarrow> string" where
  "fmtInt i = (if i < 0 then CHR ''-'' # fmtNat (nat (- i)) else fmtNat (nat i))"

text \<open>The number that a string of decimal digits denotes (used to show \<open>fmtInt\<close> injective).\<close>

definition natOfDigits :: "string \<Rightarrow> nat" where
  "natOfDigits s = foldl (\<lambda>a c. 10 * a + (of_char c - 48)) 0 s"

text \<open>\<open>strings.HasPrefix\<close> is \<open>prefix\<close>; \<open>strings.Contains\<close>:\<close>

fun strings_Contains :: "string \<Rightarrow> string \<Rightarrow> bool" where
  "strings_Contains [] substr = (substr = [])"
| "strings_Contains (c # cs) substr = (prefix substr (c # cs) \<or> strings_Contains cs substr)"

text \<open>\<open>strings.SplitN(s, "/", 2)\<close>: cut at the first slash, if there is one.\<close>

definition strings_SplitN2 :: "string \<Rightarrow> string list" where
  "strings_SplitN2 s =
     (if CHR ''/'' \<in> set s
      then [takeWhile (\<lambda>c. c \<noteq> CHR ''/'') s, tl (dropWhile (\<lambda>c. c \<noteq> CHR ''/'') s)]
      else [s])"

text \<open>\<open>strings.TrimPrefix(s, "0")\<close>.\<close>

definition strings_TrimPrefix0 :: "string \<Rightarrow> string" where
  "strings_TrimPrefix0 s = (case s of c # cs \<Rightarrow> if c = CHR ''0'' then cs else s | [] \<Rightarrow> s)"

text \<open>\<open>hex.EncodeToString\<close>: two lower-case hexadecimal digits per byte.\<close>

definition hexDigit :: "nat \<Rightarrow> char" where
  "hexDigit d = (if d < 10 then char_of (48 + d) else char_of (87 + d))"

definition hex_EncodeToString :: "string \<Rightarrow> string" where
  "hex_EncodeToString bs =
     concat (map (\<lambda>b. [hexDigit (of_char b div 16), hexDigit (of_char b mod 16)]) bs)"

section \<open>Backend client (package openbao)\<close>

text \<open>\<open>api.Secret\<close> and \<open>api.SecretAuth\<close> of the OpenBao API client, as far as the code reads them.\<close>

record SecretAuth =
  ClientToken :: string
  LeaseDuration :: int

record Secret =
  RequestID :: string
  Data :: "(string \<times> jvalue) list option"
  Auth :: "SecretAuth option"

record KubernetesAuthConfig =
  Role :: string
  MountPath :: string
  TokenPath :: string

record Config =
  Token :: string
  KubernetesAuth :: "KubernetesAuthConfig option"
  TransitMount :: string

text \<open>\<open>TransitKeyInfo\<close> (the packages \<open>openbao\<close> and \<open>kms\<close> each declare it, with the same fields).\<close>

record TransitKeyInfo =
  Name :: string
  LatestVersion :: int
  Type :: string
  Exportable :: bool

text \<open>
  \<open>Client\<close>: its configuration, the token set on the wrapped API client (\<open>SetToken\<close>) and
  \<open>tokenExpiry\<close>, whose zero value means that no expiry is recorded.
\<close>

record Client =
  config :: Config
  token :: string
  tokenExpiry :: gotime

text \<open>
  What the client calls outside the repository.
  \<^item> \<open>RenewSelf\<close>: the result of \<open>Auth().Token().RenewSelfWithContext(ctx, 0)\<close>, an error or a
    secret that may be nil.
  \<^item> \<open>Login\<close>: \<open>Logical().Write(loginPath, {role, jwt})\<close>, given the path, the role and the JWT.
  \<^item> \<open>LogicalRead\<close>, \<open>LogicalWrite\<close>: \<open>Logical().ReadWithContext(ctx, path)\<close> and
    \<open>Logical().WriteWithContext(ctx, path, data)\<close>.
  \<^item> \<open>ReadFile\<close>, \<open>Getenv\<close>: \<open>os.ReadFile\<close> and \<open>os.Getenv\<close>.
  \<^item> \<open>Clock\<close>: \<open>Clock E k\<close> is what the \<open>k\<close>-th reading of the clock in a call returns.
\<close>

record BackendEnv =
  RenewSelf :: "string + Secret option"
  Login :: "string \<Rightarrow> string \<Rightarrow> string \<Rightarrow> string + Secret option"
  LogicalRead :: "string \<Rightarrow> string + Secret option"
  LogicalWrite :: "string \<Rightarrow> (string \<times> jvalue) list \<Rightarrow> string + Secret option"
  ReadFile :: "string \<Rightarrow> string + string"
  Getenv :: "string \<Rightarrow> string"
  Clock :: "nat \<Rightarrow> gotime"

text \<open>The requests a call sends to the backend, in order.\<close>

datatype backendCall =
    CallRenewSelf
  | CallLogin string
  | CallLogicalRead string
  | CallLogicalWrite string "(string \<times> jvalue) list"

text \<open>
  \<open>authenticateKubernetes\<close>; \<open>now\<close> is the reading of the clock when the expiry is computed.
  A function of the client returns its error (\<open>None\<close> is nil), the client as it leaves it
  and the requests it sent.
\<close>

definition authenticateKubernetes ::
  "BackendEnv \<Rightarrow> gotime \<Rightarrow> Client \<Rightarrow> KubernetesAuthConfig \<Rightarrow>
   string option \<times> Client \<times> backendCall list" where
  "authenticateKubernetes E now c k8sAuth =
     (let mountPath = (if MountPath k8sAuth = [] then ''kubernetes'' else MountPath k8sAuth);
          tokenPath = (if TokenPath k8sAuth = []
                       then ''/var/run/secrets/kubernetes.io/serviceaccount/token''
                       else TokenPath k8sAuth)
      in case ReadFile E tokenPath of
        Inl err \<Rightarrow> (Some (''failed to read service account token: '' @ err), c, [])
      | Inr jwt \<Rightarrow>
          let loginPath = ''auth/'' @ mountPath @ ''/login''
          in (case Login E loginPath (Role k8sAuth) jwt of
                Inl err \<Rightarrow>
                  (Some (''failed to login with Kubernetes auth: '' @ err), c, [CallLogin loginPath])
              | Inr None \<Rightarrow>
                  (Some ''no auth info returned from Kubernetes login'', c, [CallLogin loginPath])
              | Inr (Some secret) \<Rightarrow>
                  (case Auth secret of
                     None \<Rightarrow>
                       (Some ''no auth info returned from Kubernetes login'', c,
                        [CallLogin loginPath])
                   | Some auth \<Rightarrow>
                       (None,
                        (if LeaseDuration auth > 0
                         then c\<lparr>token := ClientToken auth,
                                tokenExpiry := now + DurationSeconds (LeaseDuration auth)\<rparr>
                         else c\<lparr>token := ClientToken auth\<rparr>),
                        [CallLogin loginPath]))))"

text \<open>\<open>Client.authenticate\<close>.\<close>

definition authenticate ::
  "BackendEnv \<Rightarrow> gotime \<Rightarrow> Client \<Rightarrow> string option \<times> Client \<times> backendCall list" where
  "authenticate E now c =
     (if Token (config c) \<noteq> [] then (None, c\<lparr>token := Token (config c)\<rparr>, [])
      else case KubernetesAuth (config c) of
        Some k8sAuth \<Rightarrow> authenticateKubernetes E now c k8sAuth
      | None \<Rightarrow>
          if Getenv E ''OPENBAO_TOKEN'' \<noteq> []
          then (None, c\<lparr>token := Getenv E ''OPENBAO_TOKEN''\<rparr>, [])
          else if Getenv E ''VAULT_TOKEN'' \<noteq> []
          then (None, c\<lparr>token := Getenv E ''VAULT_TOKEN''\<rparr>, [])
          else (Some ''no authentication method configured'', c, []))"

text \<open>
  \<open>Client.RefreshToken\<close>. \<open>time.Until(expiry)\<close> is \<open>expiry.Sub(time.Now())\<close>, with the first
  reading of the clock; the renewal or the login reads the clock a second time.
\<close>

definition RefreshToken ::
  "BackendEnv \<Rightarrow> Client \<Rightarrow> string option \<times> Client \<times> backendCall list" where
  "RefreshToken E c =
     (let expiry = tokenExpiry c
      in if expiry = 0 \<or> Time_Sub expiry (Clock E 0) > 5 * Minute then (None, c, [])
         else
           (case RenewSelf E of
              Inr (Some secret) \<Rightarrow>
                (case Auth secret of
                   Some auth \<Rightarrow>
                     (None, c\<lparr>tokenExpiry := Clock E 1 + DurationSeconds (LeaseDuration auth)\<rparr>,
                      [CallRenewSelf])
                 | None \<Rightarrow>
                     (case authenticate E (Clock E 1) c of
                        (err, c', calls) \<Rightarrow> (err, c', CallRenewSelf # calls)))
            | _ \<Rightarrow>
                (case authenticate E (Clock E 1) c of
                   (err, c', calls) \<Rightarrow> (err, c', CallRenewSelf # calls))))"

text \<open>
  \<open>Client.TransitGetKeyInfo\<close>. An error of \<open>RefreshToken\<close> is only logged. Each field of the
  result is set when the type assertion on the response's entry holds, and keeps its zero
  value otherwise.
\<close>

definition TransitGetKeyInfo ::
  "BackendEnv \<Rightarrow> Client \<Rightarrow> string \<Rightarrow>
   (string + TransitKeyInfo) \<times> Client \<times> backendCall list" where
  "TransitGetKeyInfo E c keyName =
     (case RefreshToken E c of
        (refreshErr, c', calls) \<Rightarrow>
          let path = TransitMount (Client.config c') @ ''/keys/'' @ keyName
          in ((case LogicalRead E path of
                 Inl err \<Rightarrow> Inl (''failed to read key info: '' @ err)
               | Inr None \<Rightarrow> Inl (''key not found: '' @ keyName)
               | Inr (Some secret) \<Rightarrow>
                   (case Secret.Data secret of
                      None \<Rightarrow> Inl (''key not found: '' @ keyName)
                    | Some secretData \<Rightarrow>
                        Inr \<lparr>Name = keyName,
                             LatestVersion =
                               (case map_of secretData ''latest_version'' of
                                  Some (JFloat64 latestVersion) \<Rightarrow> latestVersion
                                | _ \<Rightarrow> 0),
                             Type =
                               (case map_of secretData ''type'' of
                                  Some (JString keyType) \<Rightarrow> keyType
                                | _ \<Rightarrow> []),
                             Exportable =
                               (case map_of secretData ''exportable'' of
                                  Some (JBool exportable) \<Rightarrow> exportable
                                | _ \<Rightarrow> False)\<rparr>)),
              c', calls @ [CallLogicalRead path]))"

text \<open>\<open>Client.TransitCreateKey\<close>.\<close>

definition TransitCreateKey ::
  "BackendEnv \<Rightarrow> Client \<Rightarrow> string \<Rightarrow> string \<Rightarrow>
   string option \<times> Client \<times> backendCall list" where
  "TransitCreateKey E c keyName keyType =
     (case RefreshToken E c of
        (refreshErr, c', calls) \<Rightarrow>
          let path = TransitMount (Client.config c') @ ''/keys/'' @ keyName;
              data = (if keyType \<noteq> [] then [(''type'', JString keyType)] else [])
          in ((case LogicalWrite E path data of
                 Inl err \<Rightarrow> Some (''failed to create transit key: '' @ err)
               | Inr written \<Rightarrow> None),
              c', calls @ [CallLogicalWrite path data]))"

section \<open>Encryption plugin (package kms)\<close>

text \<open>
  \<open>TransitClient.GetKeyInfo\<close> and \<open>TransitClient.CreateKey\<close>; a \<open>TransitClient\<close> is the backend
  client it wraps.
\<close>

definition GetKeyInfo ::
  "BackendEnv \<Rightarrow> Client \<Rightarrow> string \<Rightarrow>
   (string + TransitKeyInfo) \<times> Client \<times> backendCall list" where
  "GetKeyInfo E t keyName =
     (case TransitGetKeyInfo E t keyName of
        (Inl err, t', calls) \<Rightarrow> (Inl err, t', calls)
      | (Inr info, t', calls) \<Rightarrow>
          (Inr \<lparr>Name = Name info, LatestVersion = LatestVersion info, Type = Type info,
                Exportable = Exportable info\<rparr>, t', calls))"

definition CreateKey ::
  "BackendEnv \<Rightarrow> Client \<Rightarrow> string \<Rightarrow> string \<Rightarrow>
   string option \<times> Client \<times> backendCall list" where
  "CreateKey E t keyName keyType = TransitCreateKey E t keyName keyType"

record KMSConfig =
  KeyName :: string
  KeyType :: string
  CreateKeyIfNotExists :: bool

text \<open>
  \<open>Server\<close>: its configuration, its transit client and the state that the lock \<open>mu\<close> guards.
\<close>

record Server =
  config :: KMSConfig
  transit :: Client
  keyID :: string
  healthy :: bool

record StatusResponse =
  Version :: string
  Healthz :: string
  KeyId :: string

definition APIVersion :: string where
  "APIVersion = ''v2''"

definition HealthStatusOK :: string where
  "HealthStatusOK = ''ok''"

text \<open>\<open>fmt.Sprintf("%s:v%d", name, version)\<close>.\<close>

definition formatKeyID :: "string \<Rightarrow> int \<Rightarrow> string" where
  "formatKeyID name version = name @ '':v'' @ fmtInt version"

text \<open>
  \<open>Server.initialize\<close> returns its error or the server as it leaves it. \<open>E1\<close>, \<open>E2\<close> and
  \<open>E3\<close> are the environment at the first \<open>GetKeyInfo\<close>, at \<open>CreateKey\<close> and at the second
  \<open>GetKeyInfo\<close> (the last two are reached only when the first call fails).
\<close>

definition initialize ::
  "BackendEnv \<Rightarrow> BackendEnv \<Rightarrow> BackendEnv \<Rightarrow> Server \<Rightarrow> string + Server" where
  "initialize E1 E2 E3 s =
     (let keyName = KeyName (Server.config s)
      in case (case GetKeyInfo E1 (transit s) keyName of
                 (Inr keyInfo, t1, calls1) \<Rightarrow> Inr (keyInfo, t1)
               | (Inl err, t1, calls1) \<Rightarrow>
                   if \<not> CreateKeyIfNotExists (Server.config s)
                   then Inl (''transit key not found and createKeyIfNotExists is false: '' @ err)
                   else (case CreateKey E2 t1 keyName (KeyType (Server.config s)) of
                           (Some err', t2, calls2) \<Rightarrow>
                             Inl (''failed to create transit key: '' @ err')
                         | (None, t2, calls2) \<Rightarrow>
                             (case GetKeyInfo E3 t2 keyName of
                                (Inl err', t3, calls3) \<Rightarrow>
                                  Inl (''failed to get key info after creation: '' @ err')
                              | (Inr keyInfo, t3, calls3) \<Rightarrow> Inr (keyInfo, t3)))) of
        Inl err \<Rightarrow> Inl err
      | Inr (keyInfo, t') \<Rightarrow>
          Inr (s\<lparr>transit := t',
                keyID := formatKeyID keyName (LatestVersion keyInfo),
                healthy := True\<rparr>))"

text \<open>\<open>Server.Status\<close>.\<close>

definition Server_Status :: "Server \<Rightarrow> StatusResponse" where
  "Server_Status s =
     \<lparr>Version = APIVersion,
      Healthz = (if \<not> healthy s then ''unhealthy'' else HealthStatusOK),
      KeyId = keyID s\<rparr>"

text \<open>\<open>Server.performHealthCheck\<close>.\<close>

definition performHealthCheck :: "BackendEnv \<Rightarrow> Server \<Rightarrow> Server" where
  "performHealthCheck E s =
     (case GetKeyInfo E (transit s) (KeyName (Server.config s)) of
        (Inl err, t', calls) \<Rightarrow> s\<lparr>transit := t', healthy := False\<rparr>
      | (Inr keyInfo, t', calls) \<Rightarrow>
          let newKeyID = formatKeyID (KeyName (Server.config s)) (LatestVersion keyInfo);
              s' = (if newKeyID \<noteq> keyID s then s\<lparr>keyID := newKeyID\<rparr> else s)
          in s'\<lparr>transit := t', healthy := True\<rparr>)"

section \<open>Injection provider (package csi): data\<close>

record SecretObject =
  ObjectName :: string
  SecretPath :: string
  SecretKey :: string
  SecretArgs :: "(string \<times> string) list"
  Encoding :: string
  FilePermission :: string

text \<open>\<open>Mode\<close> is an \<open>int32\<close>; the code only stores and copies it.\<close>

record FetchedSecret =
  ObjectName :: string
  Content :: string
  Version :: string
  Mode :: int

record MountParams =
  RoleName :: string
  OpenBaoAddress :: string
  AuthMethod :: string
  AuthMountPath :: string
  Namespace :: string
  Objects :: "SecretObject list"
  Audience :: string

text \<open>\<open>AuthConfig\<close>; \<open>TLSConfig\<close> is left out, the provider never sets it.\<close>

record AuthConfig =
  OpenBaoAddress :: string
  AuthMethod :: string
  AuthMountPath :: string
  Role :: string
  Namespace :: string
  ServiceAccountToken :: string
  Audience :: string

record AuthenticatedClient =
  config :: AuthConfig
  token :: string
  tokenExpiry :: gotime

text \<open>The fields of the provider's \<open>Config\<close> that the code below reads.\<close>

record ProviderConfig =
  CacheTTL :: duration
  DefaultAuthMethod :: string
  DefaultRole :: string
  OpenBao_Address :: string

text \<open>The messages of the provider protocol (package proto).\<close>

record MountRequest =
  Attributes :: string
  Secrets :: string
  TargetPath :: string
  Permission :: string

record File =
  Path :: string
  Mode :: int
  Contents :: string

record ObjectVersion =
  Id :: string
  Version :: string

record ProtoError =
  Code :: string

record MountResponse =
  ObjectVersion :: "ObjectVersion list"
  Error :: "ProtoError option"
  Files :: "File list"

text \<open>The cache of the fetcher.\<close>

record cacheEntry =
  secret :: FetchedSecret
  expiresAt :: gotime

record secretsCache =
  entries :: "string \<rightharpoonup> cacheEntry"
  ttl :: duration

text \<open>
  A request the fetcher sends to the backend through the authenticated client.
\<close>

datatype clientCall = CallRead string | CallWrite string "(string \<times> jvalue) list"

text \<open>
  The state a fetch runs in: the cache of \<open>SecretsFetcher\<close>, and two records kept for the
  proofs: how often the clock has been read (\<open>reads\<close>) and the requests sent so far
  (\<open>calls\<close>).
\<close>

record fetcherState =
  cache :: secretsCache
  reads :: nat
  calls :: "clientCall list"

text \<open>
  What the provider calls outside the repository's csi package.
  \<^item> \<open>jsonUnmarshalStrings\<close>: \<open>json.Unmarshal\<close> into a \<open>map[string]string\<close>: the map it leaves
    (\<open>None\<close> is nil) and its error.
  \<^item> \<open>yamlUnmarshalObjects\<close>, \<open>jsonUnmarshalObjects\<close>: decoding the objects list.
  \<^item> \<open>apiNewClient\<close>: the error of \<open>api.NewClient\<close> for an address; \<open>loginWrite\<close>: the login
    request, given the path, the role and the JWT; \<open>readFile\<close>, \<open>getenv\<close>: \<open>os.ReadFile\<close> and
    \<open>os.Getenv\<close>; \<open>loginNow\<close>: the reading of the clock when a login computes the expiry.
  \<^item> \<open>clientRead\<close>, \<open>clientWrite\<close>: \<open>AuthenticatedClient.ReadSecret\<close> and \<open>WriteSecret\<close>, with the
    token refresh they begin with: an error, or a secret that may be nil.
  \<^item> \<open>timeNow\<close>: \<open>timeNow E k\<close> is what the fetcher's \<open>k\<close>-th reading of \<open>time.Now()\<close> returns.
  \<^item> \<open>fmtValue\<close>: \<open>fmt.Sprintf("%v", value)\<close>; \<open>jsonMarshal\<close>: \<open>json.Marshal\<close> of a
    \<open>map[string]interface{}\<close>; \<open>base64Encode\<close>: \<open>base64.StdEncoding.Encode\<close>; \<open>sscanOctal\<close>: the
    value \<open>fmt.Sscanf(perm, "%o", &mode)\<close> leaves in a zero \<open>mode\<close>.
\<close>

record CsiEnv =
  jsonUnmarshalStrings :: "string \<Rightarrow> (string \<times> string) list option \<times> string option"
  yamlUnmarshalObjects :: "string \<Rightarrow> string + SecretObject list"
  jsonUnmarshalObjects :: "string \<Rightarrow> string + SecretObject list"
  apiNewClient :: "string \<Rightarrow> string option"
  loginWrite :: "string \<Rightarrow> string \<Rightarrow> string \<Rightarrow> string + Secret option"
  readFile :: "string \<Rightarrow> string + string"
  getenv :: "string \<Rightarrow> string"
  loginNow :: gotime
  clientRead :: "AuthenticatedClient \<Rightarrow> string \<Rightarrow> string + Secret option"
  clientWrite ::
    "AuthenticatedClient \<Rightarrow> string \<Rightarrow> (string \<times> jvalue) list \<Rightarrow> string + Secret option"
  timeNow :: "nat \<Rightarrow> gotime"
  fmtValue :: "jvalue \<Rightarrow> string"
  jsonMarshal :: "(string \<times> jvalue) list \<Rightarrow> string + string"
  base64Encode :: "string \<Rightarrow> string"
  sscanOctal :: "string \<Rightarrow> int"

section \<open>Injection provider: cache and fetcher\<close>

text \<open>
  \<open>secretsCache.get\<close> and \<open>secretsCache.set\<close>; \<open>now\<close> is what \<open>time.Now()\<close> returns inside
  them. \<open>time.Now().After(entry.expiresAt)\<close> is \<open>now > expiresAt\<close>.
\<close>

definition cache_get :: "secretsCache \<Rightarrow> string \<Rightarrow> gotime \<Rightarrow> FetchedSecret option" where
  "cache_get c key now =
     (case entries c key of
        None \<Rightarrow> None
      | Some entry \<Rightarrow> if now > expiresAt entry then None else Some (secret entry))"

definition cache_set :: "secretsCache \<Rightarrow> string \<Rightarrow> FetchedSecret \<Rightarrow> gotime \<Rightarrow> secretsCache" where
  "cache_set c key fetched now =
     c\<lparr>entries := (entries c)(key \<mapsto> \<lparr>secret = fetched, expiresAt = now + ttl c\<rparr>)\<rparr>"

text \<open>\<open>cacheKey\<close>: \<open>fmt.Sprintf("%s:%s:%s", SecretPath, SecretKey, ObjectName)\<close>.\<close>

definition cacheKey :: "SecretObject \<Rightarrow> string" where
  "cacheKey obj = SecretPath obj @ '':'' @ SecretKey obj @ '':'' @ SecretObject.ObjectName obj"

text \<open>\<open>parseFilePermission\<close>; \<open>0644\<close> is 420.\<close>

definition parseFilePermission :: "CsiEnv \<Rightarrow> string \<Rightarrow> int" where
  "parseFilePermission E perm =
     (if perm = [] then 420
      else let mode = sscanOctal E (strings_TrimPrefix0 perm)
           in if mode = 0 then 420 else mode)"

text \<open>\<open>extractContent\<close>.\<close>

definition extractContent :: "CsiEnv \<Rightarrow> jvalue \<Rightarrow> SecretObject \<Rightarrow> string + string" where
  "extractContent E data obj =
     (case data of
        JObject dataMap \<Rightarrow>
          (case (if SecretKey obj \<noteq> []
                 then (case map_of dataMap (SecretKey obj) of
                         None \<Rightarrow> Inl (''key '' @ SecretKey obj @ '' not found in secret'')
                       | Some value \<Rightarrow> Inr (fmtValue E value))
                 else (case jsonMarshal E dataMap of
                         Inl err \<Rightarrow> Inl (''failed to marshal secret data: '' @ err)
                       | Inr jsonData \<Rightarrow> Inr jsonData)) of
             Inl err \<Rightarrow> Inl err
           | Inr content \<Rightarrow>
               if Encoding obj = ''base64'' then Inr (base64Encode E content)
               else if Encoding obj = ''text'' \<or> Encoding obj = [] then Inr content
               else Inl (''unsupported encoding: '' @ Encoding obj))
      | _ \<Rightarrow> Inl ''unexpected data format'')"

text \<open>The path that \<open>readFromOpenBao\<close> sends to the backend.\<close>

definition backendPath :: "string \<Rightarrow> string" where
  "backendPath path =
     (if \<not> prefix ''secret/'' path \<and> \<not> prefix ''kv/'' path then ''secret/data/'' @ path
      else if \<not> strings_Contains path ''/data/''
      then (let parts = strings_SplitN2 path
            in if length parts = 2 then parts ! 0 @ ''/data/'' @ parts ! 1 else path)
      else path)"

text \<open>
  The version that the read branch takes from \<open>resp.Data["metadata"]["version"]\<close>, or \<open>""\<close>.
\<close>

definition metadataVersion :: "(string \<times> jvalue) list \<Rightarrow> string" where
  "metadataVersion respData =
     (case map_of respData ''metadata'' of
        Some (JObject metadata) \<Rightarrow>
          (case map_of metadata ''version'' of Some (JNumber v) \<Rightarrow> v | _ \<Rightarrow> [])
      | _ \<Rightarrow> [])"

text \<open>
  \<open>readFromOpenBao\<close> returns the content and the version, an error or a panic, and the
  request it sent. The slice expression \<open>resp.RequestID[:8]\<close> panics when the request id has
  fewer than 8 bytes.
\<close>

definition readFromOpenBao ::
  "CsiEnv \<Rightarrow> AuthenticatedClient \<Rightarrow> SecretObject \<Rightarrow>
   (goerror + string \<times> string) \<times> clientCall list" where
  "readFromOpenBao E client obj =
     (let path = backendPath (SecretPath obj)
      in if length (SecretArgs obj) > 0
         then
           (let data = map (\<lambda>(k, v). (k, JString v)) (SecretArgs obj)
            in (case clientWrite E client path data of
                  Inl err \<Rightarrow> Inl (Err (''failed to write to path: '' @ err))
                | Inr None \<Rightarrow> Inl (Err (''no data returned from path: '' @ path))
                | Inr (Some resp) \<Rightarrow>
                    (case Secret.Data resp of
                       None \<Rightarrow> Inl (Err (''no data returned from path: '' @ path))
                     | Some respData \<Rightarrow>
                         if length (RequestID resp) < 8
                         then Inl (Panic ''slice bounds out of range'')
                         else (case extractContent E (JObject respData) obj of
                                 Inl err \<Rightarrow> Inl (Err err)
                               | Inr content \<Rightarrow> Inr (content, take 8 (RequestID resp)))),
                [CallWrite path data]))
         else
           (case clientRead E client path of
              Inl err \<Rightarrow> Inl (Err (''failed to read path: '' @ err))
            | Inr None \<Rightarrow> Inl (Err (''no data found at path: '' @ path))
            | Inr (Some resp) \<Rightarrow>
                (case Secret.Data resp of
                   None \<Rightarrow> Inl (Err (''no data found at path: '' @ path))
                 | Some respData \<Rightarrow>
                     let (found, version) =
                           (case map_of respData ''data'' of
                              Some data \<Rightarrow> (data, metadataVersion respData)
                            | None \<Rightarrow> (JObject respData, []));
                         version' = (if version = [] then ''1'' else version)
                     in (case extractContent E found obj of
                           Inl err \<Rightarrow> Inl (Err err)
                         | Inr content \<Rightarrow> Inr (content, version'))),
            [CallRead path]))"

text \<open>
  \<open>fetchSecret\<close>: the first reading of the clock is the one in \<open>cache.get\<close>, the second the
  one in \<open>cache.set\<close>.
\<close>

definition fetchSecret ::
  "CsiEnv \<Rightarrow> AuthenticatedClient \<Rightarrow> fetcherState \<Rightarrow> SecretObject \<Rightarrow>
   (goerror + FetchedSecret) \<times> fetcherState" where
  "fetchSecret E client st obj =
     (let key = cacheKey obj;
          st1 = st\<lparr>reads := reads st + 1\<rparr>
      in case cache_get (cache st) key (timeNow E (reads st)) of
        Some cached \<Rightarrow> (Inr cached, st1)
      | None \<Rightarrow>
          (case readFromOpenBao E client obj of
             (Inl err, sent) \<Rightarrow> (Inl err, st1\<lparr>calls := calls st1 @ sent\<rparr>)
           | (Inr (content, version), sent) \<Rightarrow>
               let mode = parseFilePermission E (FilePermission obj);
                   fetchedSecret = \<lparr>ObjectName = SecretObject.ObjectName obj, Content = content,
                                    FetchedSecret.Version = version, FetchedSecret.Mode = mode\<rparr>
               in (Inr fetchedSecret,
                   st1\<lparr>calls := calls st1 @ sent, reads := reads st1 + 1,
                       cache := cache_set (cache st1) key fetchedSecret (timeNow E (reads st1))\<rparr>)))"

text \<open>
  The loop of \<open>FetchSecrets\<close>, with its two accumulators. A panic ends it; a returned error
  is recorded and the loop goes on.
\<close>

fun FetchSecrets_loop ::
  "CsiEnv \<Rightarrow> AuthenticatedClient \<Rightarrow> fetcherState \<Rightarrow> SecretObject list \<Rightarrow>
   FetchedSecret list \<Rightarrow> string list \<Rightarrow>
   (string + FetchedSecret list \<times> string list) \<times> fetcherState" where
  "FetchSecrets_loop E client st [] secrets fetchErrors = (Inr (secrets, fetchErrors), st)"
| "FetchSecrets_loop E client st (obj # objects) secrets fetchErrors =
     (case fetchSecret E client st obj of
        (Inl (Panic msg), st') \<Rightarrow> (Inl msg, st')
      | (Inl (Err err), st') \<Rightarrow>
          FetchSecrets_loop E client st' objects secrets
            (fetchErrors @ [''failed to fetch '' @ SecretObject.ObjectName obj @ '': '' @ err])
      | (Inr fetched, st') \<Rightarrow>
          FetchSecrets_loop E client st' objects (secrets @ [fetched]) fetchErrors)"

text \<open>
  \<open>FetchSecrets\<close> returns \<open>Inl\<close> the message of a panic, or \<open>Inr\<close> the pair of Go results:
  the secrets fetched and the error (\<open>None\<close> is nil).
\<close>

definition FetchSecrets ::
  "CsiEnv \<Rightarrow> AuthenticatedClient \<Rightarrow> fetcherState \<Rightarrow> SecretObject list \<Rightarrow>
   (string + FetchedSecret list \<times> string option) \<times> fetcherState" where
  "FetchSecrets E client st objects =
     (case FetchSecrets_loop E client st objects [] [] of
        (Inl panic, st') \<Rightarrow> (Inl panic, st')
      | (Inr (secrets, fetchErrors), st') \<Rightarrow>
          if length fetchErrors > 0
          then (Inr (secrets,
                     Some (''some secrets failed to fetch:'' @
                           concat (map (\<lambda>err. newline @ ''  - '' @ err) fetchErrors))), st')
          else (Inr (secrets, None), st'))"

section \<open>Injection provider: authentication and Mount\<close>

text \<open>
  The three methods of \<open>AuthenticatedClient.authenticate\<close> return an error or the client
  with its token set.
\<close>

definition loginResult ::
  "CsiEnv \<Rightarrow> AuthenticatedClient \<Rightarrow> string \<Rightarrow> string \<Rightarrow> string + Secret option \<Rightarrow>
   string + AuthenticatedClient" where
  "loginResult E c failed missing answer =
     (case answer of
        Inl err \<Rightarrow> Inl (failed @ err)
      | Inr None \<Rightarrow> Inl missing
      | Inr (Some resp) \<Rightarrow>
          (case Auth resp of
             None \<Rightarrow> Inl missing
           | Some auth \<Rightarrow>
               Inr (if LeaseDuration auth > 0
                    then c\<lparr>token := ClientToken auth,
                           tokenExpiry := loginNow E + DurationSeconds (LeaseDuration auth)\<rparr>
                    else c\<lparr>token := ClientToken auth\<rparr>)))"

definition AuthenticatedClient_authenticateKubernetes ::
  "CsiEnv \<Rightarrow> AuthenticatedClient \<Rightarrow> string + AuthenticatedClient" where
  "AuthenticatedClient_authenticateKubernetes E c =
     (case (if ServiceAccountToken (config c) = []
            then (case readFile E ''/var/run/secrets/kubernetes.io/serviceaccount/token'' of
                    Inl err \<Rightarrow> Inl (''failed to read service account token: '' @ err)
                  | Inr tokenBytes \<Rightarrow> Inr tokenBytes)
            else Inr (ServiceAccountToken (config c))) of
        Inl err \<Rightarrow> Inl err
      | Inr jwt \<Rightarrow>
          let mountPath = (if AuthMountPath (config c) = [] then ''kubernetes''
                           else AuthMountPath (config c));
              loginPath = ''auth/'' @ mountPath @ ''/login''
          in loginResult E c ''kubernetes auth login failed: ''
               ''no auth info returned from kubernetes login''
               (loginWrite E loginPath (Role (config c)) jwt))"

definition AuthenticatedClient_authenticateJWT ::
  "CsiEnv \<Rightarrow> AuthenticatedClient \<Rightarrow> string + AuthenticatedClient" where
  "AuthenticatedClient_authenticateJWT E c =
     (let jwt = ServiceAccountToken (config c)
      in if jwt = [] then Inl ''JWT token is required for jwt auth''
         else
           let mountPath = (if AuthMountPath (config c) = [] then ''jwt''
                            else AuthMountPath (config c));
               loginPath = ''auth/'' @ mountPath @ ''/login''
           in loginResult E c ''jwt auth login failed: ''
                ''no auth info returned from jwt login''
                (loginWrite E loginPath (Role (config c)) jwt))"

definition AuthenticatedClient_authenticateToken ::
  "CsiEnv \<Rightarrow> AuthenticatedClient \<Rightarrow> string + AuthenticatedClient" where
  "AuthenticatedClient_authenticateToken E c =
     (let token0 = getenv E ''OPENBAO_TOKEN'';
          token1 = (if token0 = [] then getenv E ''VAULT_TOKEN'' else token0)
      in if token1 = [] then Inl ''no token available for token auth''
         else Inr (c\<lparr>token := token1\<rparr>))"

definition AuthenticatedClient_authenticate ::
  "CsiEnv \<Rightarrow> AuthenticatedClient \<Rightarrow> string + AuthenticatedClient" where
  "AuthenticatedClient_authenticate E c =
     (if AuthMethod (config c) = ''kubernetes'' then AuthenticatedClient_authenticateKubernetes E c
      else if AuthMethod (config c) = ''jwt'' then AuthenticatedClient_authenticateJWT E c
      else if AuthMethod (config c) = ''token'' then AuthenticatedClient_authenticateToken E c
      else Inl (''unsupported auth method: '' @ AuthMethod (config c)))"

text \<open>\<open>NewAuthenticatedClient\<close>, for a non-nil configuration without TLS settings.\<close>

definition NewAuthenticatedClient :: "CsiEnv \<Rightarrow> AuthConfig \<Rightarrow> string + AuthenticatedClient" where
  "NewAuthenticatedClient E authConfig =
     (if OpenBaoAddress authConfig = [] then Inl ''OpenBao address is required''
      else case apiNewClient E (OpenBaoAddress authConfig) of
        Some err \<Rightarrow> Inl (''failed to create OpenBao client: '' @ err)
      | None \<Rightarrow>
          (case AuthenticatedClient_authenticate E
                  \<lparr>config = authConfig, token = [], tokenExpiry = 0\<rparr> of
             Inl err \<Rightarrow> Inl (''authentication failed: '' @ err)
           | Inr authClient \<Rightarrow> Inr authClient))"

text \<open>\<open>Provider.authenticate\<close>; \<open>secrets\<close> is the decoded pod-secrets map, \<open>None\<close> when nil.\<close>

definition Provider_authenticate ::
  "CsiEnv \<Rightarrow> ProviderConfig \<Rightarrow> MountParams \<Rightarrow> (string \<times> string) list option \<Rightarrow>
   string + AuthenticatedClient" where
  "Provider_authenticate E cfg params secrets =
     (let address = (if MountParams.OpenBaoAddress params = [] then OpenBao_Address cfg
                     else MountParams.OpenBaoAddress params);
          fromSecrets =
            (case secrets of
               None \<Rightarrow> []
             | Some m \<Rightarrow>
                 (case map_of m ''csi.storage.k8s.io/serviceAccount.tokens'' of
                    Some saTokensStr \<Rightarrow> saTokensStr
                  | None \<Rightarrow> []));
          saToken =
            (if fromSecrets = []
             then (case readFile E ''/var/run/secrets/kubernetes.io/serviceaccount/token'' of
                     Inr tokenBytes \<Rightarrow> tokenBytes
                   | Inl err \<Rightarrow> [])
             else fromSecrets)
      in NewAuthenticatedClient E
           \<lparr>OpenBaoAddress = address,
            AuthMethod = MountParams.AuthMethod params,
            AuthMountPath = MountParams.AuthMountPath params,
            Role = RoleName params,
            Namespace = MountParams.Namespace params,
            ServiceAccountToken = saToken,
            Audience = MountParams.Audience params\<rparr>)"

text \<open>\<open>parseMountParams\<close>; \<open>attribs\<close> is the decoded attribute map, \<open>None\<close> when nil.\<close>

definition attribOr :: "(string \<times> string) list \<Rightarrow> string \<Rightarrow> string \<Rightarrow> string" where
  "attribOr attribs key dflt = (case map_of attribs key of Some v \<Rightarrow> v | None \<Rightarrow> dflt)"

definition parseMountParams ::
  "CsiEnv \<Rightarrow> ProviderConfig \<Rightarrow> (string \<times> string) list option \<Rightarrow> string + MountParams" where
  "parseMountParams E cfg attribs =
     (case attribs of
        None \<Rightarrow> Inl ''attributes are required''
      | Some a \<Rightarrow>
          (case (case map_of a ''objects'' of
                   None \<Rightarrow> Inr []
                 | Some objectsStr \<Rightarrow>
                     (case yamlUnmarshalObjects E objectsStr of
                        Inr objects \<Rightarrow> Inr objects
                      | Inl yamlErr \<Rightarrow>
                          (case jsonUnmarshalObjects E objectsStr of
                             Inl err \<Rightarrow> Inl (''failed to parse objects: '' @ err)
                           | Inr objects \<Rightarrow> Inr objects))) of
             Inl err \<Rightarrow> Inl err
           | Inr objects \<Rightarrow>
               let params =
                     \<lparr>RoleName = attribOr a ''roleName'' (DefaultRole cfg),
                      MountParams.OpenBaoAddress = attribOr a ''openbaoAddr'' [],
                      MountParams.AuthMethod = attribOr a ''authMethod'' (DefaultAuthMethod cfg),
                      MountParams.AuthMountPath = attribOr a ''authMountPath'' ''kubernetes'',
                      MountParams.Namespace = attribOr a ''namespace'' [],
                      Objects = objects,
                      MountParams.Audience = attribOr a ''audience'' []\<rparr>
               in if RoleName params = [] then Inl ''roleName is required''
                  else if length (Objects params) = 0 then Inl ''objects list cannot be empty''
                  else Inr params))"

text \<open>The response that carries only an error code.\<close>

definition errorResponse :: "string \<Rightarrow> MountResponse" where
  "errorResponse code = \<lparr>ObjectVersion = [], Error = Some \<lparr>Code = code\<rparr>, Files = []\<rparr>"

text \<open>
  The two decoding steps of \<open>Mount\<close>: the attributes (the map \<open>json.Unmarshal\<close> leaves and
  its error; a nil map and no error for an empty string) and the pod secrets (an error is
  only logged).
\<close>

definition decodeAttributes ::
  "CsiEnv \<Rightarrow> MountRequest \<Rightarrow> (string \<times> string) list option \<times> string option" where
  "decodeAttributes E req =
     (if Attributes req \<noteq> [] then jsonUnmarshalStrings E (Attributes req) else (None, None))"

definition decodeSecrets :: "CsiEnv \<Rightarrow> MountRequest \<Rightarrow> (string \<times> string) list option" where
  "decodeSecrets E req =
     (if Secrets req \<noteq> [] then fst (jsonUnmarshalStrings E (Secrets req)) else None)"

text \<open>
  \<open>Provider.Mount\<close> returns \<open>Inr\<close> the response it returns together with a nil error (every
  \<open>return\<close> of the source has that form), or \<open>Inl\<close> the message of a panic; and the state of
  the fetcher.
\<close>

definition Mount ::
  "CsiEnv \<Rightarrow> ProviderConfig \<Rightarrow> fetcherState \<Rightarrow> MountRequest \<Rightarrow>
   (string + MountResponse) \<times> fetcherState" where
  "Mount E cfg st req =
     (if snd (decodeAttributes E req) \<noteq> None
      then (Inr (errorResponse ''InvalidArgument''), st)
      else
        (case parseMountParams E cfg (fst (decodeAttributes E req)) of
           Inl err \<Rightarrow> (Inr (errorResponse ''InvalidArgument''), st)
         | Inr params \<Rightarrow>
             (case Provider_authenticate E cfg params (decodeSecrets E req) of
                Inl err \<Rightarrow> (Inr (errorResponse ''PermissionDenied''), st)
              | Inr authClient \<Rightarrow>
                  (case FetchSecrets E authClient st (Objects params) of
                     (Inl panic, st') \<Rightarrow> (Inl panic, st')
                   | (Inr (fetchedSecrets, Some err), st') \<Rightarrow>
                       (Inr (errorResponse ''Internal''), st')
                   | (Inr (fetchedSecrets, None), st') \<Rightarrow>
                       (Inr \<lparr>ObjectVersion =
                               map (\<lambda>s. \<lparr>Id = FetchedSecret.ObjectName s,
                                          Version = FetchedSecret.Version s\<rparr>)
                                   fetchedSecrets,
                             Error = None,
                             Files =
                               map (\<lambda>s. \<lparr>Path = FetchedSecret.ObjectName s,
                                          Mode = FetchedSecret.Mode s,
                                          Contents = Content s\<rparr>)
                                   fetchedSecrets\<rparr>, st')))))"

text \<open>
  For the statements about \<open>FetchSecrets\<close>: the outcome of each object's fetch when the
  objects are fetched one after the other, each in the state the one before left; the
  secrets among the outcomes; and the error lines \<open>FetchSecrets\<close> records for the failures.
\<close>

fun fetchEach ::
  "CsiEnv \<Rightarrow> AuthenticatedClient \<Rightarrow> fetcherState \<Rightarrow> SecretObject list \<Rightarrow>
   (SecretObject \<times> (goerror + FetchedSecret)) list" where
  "fetchEach E client st [] = []"
| "fetchEach E client st (obj # objects) =
     (obj, fst (fetchSecret E client st obj)) #
     fetchEach E client (snd (fetchSecret E client st obj)) objects"

fun fetchedOf :: "(SecretObject \<times> (goerror + FetchedSecret)) list \<Rightarrow> FetchedSecret list" where
  "fetchedOf [] = []"
| "fetchedOf ((obj, Inr fetched) # outcomes) = fetched # fetchedOf outcomes"
| "fetchedOf ((obj, Inl err) # outcomes) = fetchedOf outcomes"

fun errorLinesOf :: "(SecretObject \<times> (goerror + FetchedSecret)) list \<Rightarrow> string list" where
  "errorLinesOf [] = []"
| "errorLinesOf ((obj, Inl (Err err)) # outcomes) =
     (''failed to fetch '' @ SecretObject.ObjectName obj @ '': '' @ err) # errorLinesOf outcomes"
| "errorLinesOf ((obj, other) # outcomes) = errorLinesOf outcomes"

definition panicFree :: "(SecretObject \<times> (goerror + FetchedSecret)) list \<Rightarrow> bool" where
  "panicFree outcomes = list_all (\<lambda>(obj, r). case r of Inl (Panic msg) \<Rightarrow> False | _ \<Rightarrow> True) outcomes"

text \<open>The message of the first panic among the outcomes, if a fetch panics.\<close>

fun firstPanic :: "(SecretObject \<times> (goerror + FetchedSecret)) list \<Rightarrow> string option" where
  "firstPanic [] = None"
| "firstPanic ((obj, Inl (Panic msg)) # outcomes) = Some msg"
| "firstPanic ((obj, other) # outcomes) = firstPanic outcomes"

section \<open>Secret-sync controller: literal template substitution\<close>

text \<open>
  \<open>indexOf\<close> (controller package): the loop \<open>for i := 0; i <= len(s)-len(substr); i++\<close>,
  with Go's signed \<open>int\<close> for the bound, so that a pattern longer than \<open>s\<close> never enters it.
\<close>

function indexOf_loop :: "nat \<Rightarrow> string \<Rightarrow> string \<Rightarrow> int" where
  "indexOf_loop i s substr =
     (if int i \<le> int (length s) - int (length substr)
      then (if take (length substr) (drop i s) = substr then int i
            else indexOf_loop (Suc i) s substr)
      else - 1)"
  by pat_completeness auto
termination
  by (relation "measure (\<lambda>(i, s, substr). Suc (length s) - i)") auto

declare indexOf_loop.simps [simp del]

definition indexOf :: "string \<Rightarrow> string \<Rightarrow> int" where
  "indexOf s substr = indexOf_loop 0 s substr"

text \<open>
  One pass of the body of \<open>replaceAll\<close>'s loop: \<open>newS\<close> is \<open>s\<close> with the first occurrence
  of \<open>old\<close> replaced, or \<open>s\<close> itself when there is none.
\<close>

definition replaceFirst :: "string \<Rightarrow> string \<Rightarrow> string \<Rightarrow> string" where
  "replaceFirst s old new =
     (let idx = indexOf s old
      in if idx \<ge> 0 then take (nat idx) s @ new @ drop (nat idx + length old) s else s)"

text \<open>
  \<open>replaceAll\<close>: the \<open>for { ... }\<close> loop runs until a pass leaves the string unchanged,
  rescanning from the start each time. Nothing bounds it, so the model is a partial function
  and \<open>None\<close> stands for a call that never returns.
\<close>

partial_function (option) replaceAll :: "string \<Rightarrow> string \<Rightarrow> string \<Rightarrow> string option" where
  "replaceAll s old new =
     (let newS = replaceFirst s old new
      in if newS = s then Some s else replaceAll newS old new)"

declare replaceAll.simps [code]

text \<open>
  \<open>SecretTemplate\<close>: the two maps list their entries in the order the \<open>range\<close> loops of
  \<open>applyTemplate\<close> visit them; a nil map is \<open>[]\<close>, which the loop treats like an empty one.
\<close>

record SecretTemplate =
  Data :: "(string \<times> string) list"
  StringData :: "(string \<times> string) list"

text \<open>\<open>fmt.Sprintf("{{ .Data.%s }}", k)\<close>.\<close>

definition placeholder :: "string \<Rightarrow> string" where
  "placeholder k = ''{{ .Data.'' @ k @ '' }}''"

text \<open>
  The inner loop \<open>for k, v := range sourceData\<close>, over the entries of \<open>sourceData\<close> in the
  order the loop visits them. The parameter \<open>sprintv\<close> is \<open>fmt.Sprintf("%v", v)\<close>.
\<close>

fun substitute ::
  "(jvalue \<Rightarrow> string) \<Rightarrow> (string \<times> jvalue) list \<Rightarrow> string \<Rightarrow> string option" where
  "substitute sprintv [] value = Some value"
| "substitute sprintv ((k, v) # rest) value =
     (case replaceAll value (placeholder k) (sprintv v) of
        None \<Rightarrow> None
      | Some value' \<Rightarrow> substitute sprintv rest value')"

text \<open>The outer loop \<open>for key, tmpl := range ...\<close> writing \<open>result[key]\<close>.\<close>

fun applyEntries ::
  "(jvalue \<Rightarrow> string) \<Rightarrow> (string \<times> jvalue) list \<Rightarrow> (string \<times> string) list \<Rightarrow>
   (string \<rightharpoonup> string) \<Rightarrow> (string \<rightharpoonup> string) option" where
  "applyEntries sprintv sourceData [] result = Some result"
| "applyEntries sprintv sourceData ((key, tmpl) # rest) result =
     (case substitute sprintv sourceData tmpl of
        None \<Rightarrow> None
      | Some value \<Rightarrow> applyEntries sprintv sourceData rest (result(key \<mapsto> value)))"

text \<open>
  \<open>applyTemplate\<close>: copy \<open>data\<close>, then apply the \<open>StringData\<close> templates, then the \<open>Data\<close>
  templates. Its Go error result is always nil and is left out; \<open>None\<close> is a call that
  does not return.
\<close>

definition applyTemplate ::
  "(jvalue \<Rightarrow> string) \<Rightarrow> (string \<rightharpoonup> string) \<Rightarrow> SecretTemplate \<Rightarrow> (string \<times> jvalue) list \<Rightarrow>
   (string \<rightharpoonup> string) option" where
  "applyTemplate sprintv data template sourceData =
     (case applyEntries sprintv sourceData (StringData template) data of
        None \<Rightarrow> None
      | Some result \<Rightarrow> applyEntries sprintv sourceData (Data template) result)"

text \<open>
  \<open>parseRefreshInterval\<close>, with \<open>defaultRefreshInterval = time.Hour\<close>. The parameter
  \<open>parseDuration\<close> is \<open>time.ParseDuration\<close>: an error, or a number of nanoseconds.
\<close>

definition defaultRefreshInterval :: duration where
  "defaultRefreshInterval = Hour"

definition parseRefreshInterval :: "(string \<Rightarrow> string + duration) \<Rightarrow> string \<Rightarrow> duration" where
  "parseRefreshInterval parseDuration interval =
     (if interval = [] then defaultRefreshInterval
      else case parseDuration interval of
        Inl err \<Rightarrow> defaultRefreshInterval
      | Inr d \<Rightarrow> if d < Minute then Minute else d)"

section \<open>Kubernetes objects shared by the two controllers\<close>

record Condition =
  Type :: string
  Status :: string
  LastTransitionTime :: gotime
  Reason :: string
  Message :: string

record ObjectMeta =
  Name :: string
  Namespace :: string
  Generation :: int
  DeletionTimestamp :: "gotime option"
  Finalizers :: "string list"

text \<open>The fields that \<open>BaoSecretStatus\<close> and \<open>BaoPolicyStatus\<close> have in common.\<close>

record CommonStatus =
  Conditions :: "Condition list"
  LastSyncTime :: "gotime option"
  ObservedGeneration :: int

text \<open>\<open>ctrl.Result\<close>, and the pair \<open>(ctrl.Result, error)\<close> a reconcile returns.\<close>

record Result =
  RequeueAfter :: duration

type_synonym reconcileResult = "Result \<times> string option"

text \<open>The outcome of the Kubernetes client's \<open>Get\<close>.\<close>

datatype 'a getResult = NotFound | GetError string | Found 'a

text \<open>
  A custom resource: \<open>metav1.ObjectMeta\<close>, \<open>Spec\<close> and \<open>Status\<close>. \<open>BaoSecret\<close> and \<open>BaoPolicy\<close>
  are its two instances.
\<close>

record ('spec, 'status) Object =
  Meta :: ObjectMeta
  Spec :: 'spec
  Status :: 'status

text \<open>
  What both reconcilers call outside the repository's controller package.
  \<^item> \<open>Get\<close>: the Kubernetes client's \<open>Get\<close> for the object the request names.
  \<^item> \<open>Update\<close>, \<open>StatusUpdate\<close>: the client's \<open>Update\<close> and \<open>Status().Update\<close>; \<open>None\<close> is
    a nil error.
  \<^item> \<open>Now\<close>: the clock; every reading within one reconcile returns this instant.
  \<^item> \<open>sha256_Sum256\<close>: \<open>crypto/sha256\<close>.
\<close>

record 'obj ClientEnv =
  Get :: "'obj getResult"
  Update :: "'obj \<Rightarrow> string option"
  StatusUpdate :: "'obj \<Rightarrow> string option"
  Now :: gotime
  sha256_Sum256 :: "string \<Rightarrow> string"

definition ConditionTypeReady :: string where
  "ConditionTypeReady = ''Ready''"

definition ConditionTypeSynced :: string where
  "ConditionTypeSynced = ''Synced''"

definition ConditionTrue :: string where
  "ConditionTrue = ''True''"

definition ConditionFalse :: string where
  "ConditionFalse = ''False''"

text \<open>\<open>controllerutil.ContainsFinalizer\<close>, \<open>AddFinalizer\<close> and \<open>RemoveFinalizer\<close>.\<close>

definition ContainsFinalizer :: "ObjectMeta \<Rightarrow> string \<Rightarrow> bool" where
  "ContainsFinalizer m f = (f \<in> set (Finalizers m))"

definition AddFinalizer :: "ObjectMeta \<Rightarrow> string \<Rightarrow> ObjectMeta" where
  "AddFinalizer m f = (if f \<in> set (Finalizers m) then m else m\<lparr>Finalizers := Finalizers m @ [f]\<rparr>)"

definition RemoveFinalizer :: "ObjectMeta \<Rightarrow> string \<Rightarrow> ObjectMeta" where
  "RemoveFinalizer m f = m\<lparr>Finalizers := filter (\<lambda>g. g \<noteq> f) (Finalizers m)\<rparr>"

text \<open>
  \<open>setCondition\<close> (the two reconcilers have the same code): update the first condition of
  the given type in place, or append a new one.
\<close>

fun setCondition ::
  "Condition list \<Rightarrow> gotime \<Rightarrow> string \<Rightarrow> string \<Rightarrow> string \<Rightarrow> string \<Rightarrow> Condition list" where
  "setCondition [] now condType status reason message =
     [\<lparr>Type = condType, Condition.Status = status, LastTransitionTime = now,
       Reason = reason, Message = message\<rparr>]"
| "setCondition (c # cs) now condType status reason message =
     (if Type c = condType
      then c\<lparr>LastTransitionTime :=
               (if Condition.Status c \<noteq> status then now else LastTransitionTime c),
             Condition.Status := status, Reason := reason, Message := message\<rparr> # cs
      else c # setCondition cs now condType status reason message)"

section \<open>Secret-sync controller: reconcile\<close>

record SecretTarget =
  Name :: string
  Namespace :: string
  CreationPolicy :: string

record BaoSecretSpec =
  SecretPath :: string
  SecretKey :: string
  Target :: SecretTarget
  RefreshInterval :: string
  Template :: "SecretTemplate option"
  SuspendSync :: bool

record BaoSecretStatus = CommonStatus +
  SecretVersion :: string
  SyncedSecretName :: string
  SyncedSecretNamespace :: string

type_synonym BaoSecret = "(BaoSecretSpec, BaoSecretStatus) Object"

text \<open>
  What the secret-sync reconciler calls besides.
  \<^item> \<open>KVRead\<close>: \<open>OpenBaoClient.KVRead\<close>, \<open>None\<close> when the reconciler's \<open>OpenBaoClient\<close> is nil.
  \<^item> \<open>CreateOrUpdate\<close>: \<open>controllerutil.CreateOrUpdate\<close> on the target secret, given its name,
    namespace, data and version; the closure that sets labels, annotations, type, data and
    the owner reference runs inside it.
  \<^item> \<open>Sprintv\<close>, \<open>ParseDuration\<close>, \<open>json_Marshal\<close>: \<open>fmt.Sprintf("%v", v)\<close>,
    \<open>time.ParseDuration\<close> and \<open>json.Marshal\<close> of a \<open>map[string][]byte\<close>.
\<close>

record SecretEnv = "BaoSecret ClientEnv" +
  KVRead :: "(string \<Rightarrow> string + (string \<times> jvalue) list) option"
  CreateOrUpdate :: "string \<Rightarrow> string \<Rightarrow> (string \<rightharpoonup> string) \<Rightarrow> string \<Rightarrow> string option"
  Sprintv :: "jvalue \<Rightarrow> string"
  ParseDuration :: "string \<Rightarrow> string + duration"
  json_Marshal :: "(string \<rightharpoonup> string) \<Rightarrow> string"

definition baoSecretFinalizer :: string where
  "baoSecretFinalizer = ''kubebao.io/finalizer''"

text \<open>\<open>calculateVersion\<close>: the first 8 bytes of the SHA-256 of the JSON of \<open>data\<close>, in hex.\<close>

definition calculateVersion :: "SecretEnv \<Rightarrow> (string \<rightharpoonup> string) \<Rightarrow> string" where
  "calculateVersion E data = hex_EncodeToString (take 8 (sha256_Sum256 E (json_Marshal E data)))"

text \<open>
  \<open>syncSecret\<close> returns its error and the updated object; \<open>None\<close> when \<open>applyTemplate\<close>
  does not return.
\<close>

definition syncSecret :: "SecretEnv \<Rightarrow> BaoSecret \<Rightarrow> (string option \<times> BaoSecret) option" where
  "syncSecret E baoSecret =
     (case KVRead E of
        None \<Rightarrow> Some (Some ''OpenBao client not configured'', baoSecret)
      | Some kvRead \<Rightarrow>
     (case kvRead (SecretPath (Spec baoSecret)) of
        Inl err \<Rightarrow> Some (Some (''failed to read secret from OpenBao: '' @ err), baoSecret)
      | Inr secretData \<Rightarrow>
     (case (if SecretKey (Spec baoSecret) \<noteq> []
            then (case map_of secretData (SecretKey (Spec baoSecret)) of
                    None \<Rightarrow> Inl (''key '' @ SecretKey (Spec baoSecret) @ '' not found in secret'')
                  | Some value \<Rightarrow> Inr [SecretKey (Spec baoSecret) \<mapsto> Sprintv E value])
            else Inr (map_option (Sprintv E) \<circ> map_of secretData)) of
        Inl err \<Rightarrow> Some (Some err, baoSecret)
      | Inr data0 \<Rightarrow>
     (case (case Template (Spec baoSecret) of
              None \<Rightarrow> Some data0
            | Some template \<Rightarrow> applyTemplate (Sprintv E) data0 template secretData) of
        None \<Rightarrow> None
      | Some data \<Rightarrow>
          let targetNamespace =
                (if SecretTarget.Namespace (Target (Spec baoSecret)) = []
                 then ObjectMeta.Namespace (Meta baoSecret)
                 else SecretTarget.Namespace (Target (Spec baoSecret)));
              version = calculateVersion E data
          in (case CreateOrUpdate E (SecretTarget.Name (Target (Spec baoSecret)))
                     targetNamespace data version of
                Some err \<Rightarrow> Some (Some (''failed to create/update secret: '' @ err), baoSecret)
              | None \<Rightarrow>
                  Some (None, baoSecret\<lparr>Status := (Status baoSecret)
                     \<lparr>SecretVersion := version,
                      SyncedSecretName := SecretTarget.Name (Target (Spec baoSecret)),
                      SyncedSecretNamespace := targetNamespace\<rparr>\<rparr>))))))"

text \<open>\<open>BaoSecretReconciler.handleDeletion\<close>.\<close>

definition BaoSecretReconciler_handleDeletion :: "SecretEnv \<Rightarrow> BaoSecret \<Rightarrow> reconcileResult" where
  "BaoSecretReconciler_handleDeletion E baoSecret =
     (if ContainsFinalizer (Meta baoSecret) baoSecretFinalizer
      then (case Update E (baoSecret\<lparr>Meta := RemoveFinalizer (Meta baoSecret) baoSecretFinalizer\<rparr>) of
              Some err \<Rightarrow> (\<lparr>RequeueAfter = 0\<rparr>, Some err)
            | None \<Rightarrow> (\<lparr>RequeueAfter = 0\<rparr>, None))
      else (\<lparr>RequeueAfter = 0\<rparr>, None))"

definition setSecretCondition ::
  "SecretEnv \<Rightarrow> BaoSecret \<Rightarrow> string \<Rightarrow> string \<Rightarrow> string \<Rightarrow> string \<Rightarrow> BaoSecret" where
  "setSecretCondition E baoSecret condType status reason message =
     baoSecret\<lparr>Status := (Status baoSecret)
       \<lparr>Conditions := setCondition (Conditions (Status baoSecret)) (Now E)
                         condType status reason message\<rparr>\<rparr>"

text \<open>
  \<open>BaoSecretReconciler.Reconcile\<close>. The object the request names is what \<open>Get\<close> returns.
  \<open>None\<close> is a reconcile that does not return.
\<close>

definition BaoSecretReconciler_Reconcile :: "SecretEnv \<Rightarrow> reconcileResult option" where
  "BaoSecretReconciler_Reconcile E =
     (case Get E of
        NotFound \<Rightarrow> Some (\<lparr>RequeueAfter = 0\<rparr>, None)
      | GetError err \<Rightarrow> Some (\<lparr>RequeueAfter = 0\<rparr>, Some err)
      | Found fetched \<Rightarrow>
          if DeletionTimestamp (Meta fetched) \<noteq> None then Some (BaoSecretReconciler_handleDeletion E fetched)
          else
            let withFinalizer = fetched\<lparr>Meta := AddFinalizer (Meta fetched) baoSecretFinalizer\<rparr>;
                updateErr = (if \<not> ContainsFinalizer (Meta fetched) baoSecretFinalizer
                             then Update E withFinalizer else None)
            in case updateErr of
              Some err \<Rightarrow> Some (\<lparr>RequeueAfter = 0\<rparr>, Some err)
            | None \<Rightarrow>
                if SuspendSync (Spec withFinalizer)
                then (case StatusUpdate E (setSecretCondition E withFinalizer ConditionTypeReady
                             ConditionFalse ''SyncSuspended'' ''Sync is suspended'') of
                        Some err \<Rightarrow> Some (\<lparr>RequeueAfter = 0\<rparr>, Some err)
                      | None \<Rightarrow> Some (\<lparr>RequeueAfter = 0\<rparr>, None))
                else
                  (case syncSecret E withFinalizer of
                     None \<Rightarrow> None
                   | Some (Some err, failed) \<Rightarrow>
                       (case StatusUpdate E
                          (setSecretCondition E
                             (setSecretCondition E failed ConditionTypeSynced ConditionFalse
                                ''Failed'' err)
                             ConditionTypeReady ConditionFalse ''Failed'' ''Failed to sync secret'') of
                          Some err' \<Rightarrow> Some (\<lparr>RequeueAfter = 0\<rparr>, Some err')
                        | None \<Rightarrow> Some (\<lparr>RequeueAfter = 30 * Second\<rparr>, None))
                   | Some (None, synced) \<Rightarrow>
                       let stamped = synced\<lparr>Status := (Status synced)
                             \<lparr>ObservedGeneration := Generation (Meta synced),
                              LastSyncTime := Some (Now E)\<rparr>\<rparr>
                       in (case StatusUpdate E
                             (setSecretCondition E
                                (setSecretCondition E stamped ConditionTypeSynced ConditionTrue
                                   ''Success'' ''Secret synced successfully'')
                                ConditionTypeReady ConditionTrue ''Success'' ''Secret is ready'') of
                             Some err \<Rightarrow> Some (\<lparr>RequeueAfter = 0\<rparr>, Some err)
                           | None \<Rightarrow>
                               Some (\<lparr>RequeueAfter =
                                        parseRefreshInterval (ParseDuration E)
                                          (RefreshInterval (Spec synced))\<rparr>, None))))"

section \<open>Policy-sync controller\<close>

text \<open>
  \<open>AllowedParameters\<close> is a Go map, stored here as the list of its entries (distinct keys).
\<close>

record PolicyRule =
  Path :: string
  Capabilities :: "string list"
  AllowedParameters :: "(string \<times> string list) list"
  DeniedParameters :: "string list"
  RequiredParameters :: "string list"
  MinWrappingTTL :: string
  MaxWrappingTTL :: string

record BaoPolicySpec =
  PolicyName :: string
  Rules :: "PolicyRule list"

record BaoPolicyStatus = CommonStatus +
  PolicyVersion :: string
  AppliedPolicyName :: string

type_synonym BaoPolicy = "(BaoPolicySpec, BaoPolicyStatus) Object"

text \<open>
  The loops \<open>for i, x := range xs { if i > 0 { hcl += ", " }; hcl += "\"" + x + "\"" }\<close>
  over a slice.
\<close>

fun quoteJoin :: "string list \<Rightarrow> string" where
  "quoteJoin [] = []"
| "quoteJoin [x] = dquote @ x @ dquote"
| "quoteJoin (x # y # ys) = dquote @ x @ dquote @ '', '' @ quoteJoin (y # ys)"

text \<open>
  The body of \<open>ToHCL\<close>'s loop for one rule. \<open>visit\<close> is the order in which the loop
  \<open>for key, values := range rule.AllowedParameters\<close> visits the map in this call: Go does
  not fix it, so it is an input. A run of the program corresponds to a \<open>visit\<close> that
  returns a permutation of its argument.
\<close>

definition ruleHCL ::
  "((string \<times> string list) list \<Rightarrow> (string \<times> string list) list) \<Rightarrow> PolicyRule \<Rightarrow> string" where
  "ruleHCL visit rule =
     ''path '' @ dquote @ Path rule @ dquote @ '' {'' @ newline @
     ''  capabilities = ['' @ quoteJoin (Capabilities rule) @ '']'' @ newline @
     (if length (AllowedParameters rule) > 0
      then ''  allowed_parameters = {'' @ newline @
           concat (map (\<lambda>(key, values).
                     ''    '' @ dquote @ key @ dquote @ '' = ['' @ quoteJoin values @ '']'' @ newline)
                   (visit (AllowedParameters rule))) @
           ''  }'' @ newline
      else []) @
     (if length (DeniedParameters rule) > 0
      then ''  denied_parameters = {'' @ newline @
           concat (map (\<lambda>key. ''    '' @ dquote @ key @ dquote @ '' = []'' @ newline)
                   (DeniedParameters rule)) @
           ''  }'' @ newline
      else []) @
     (if length (RequiredParameters rule) > 0
      then ''  required_parameters = ['' @ quoteJoin (RequiredParameters rule) @ '']'' @ newline
      else []) @
     (if MinWrappingTTL rule \<noteq> []
      then ''  min_wrapping_ttl = '' @ dquote @ MinWrappingTTL rule @ dquote @ newline
      else []) @
     (if MaxWrappingTTL rule \<noteq> []
      then ''  max_wrapping_ttl = '' @ dquote @ MaxWrappingTTL rule @ dquote @ newline
      else []) @
     ''}'' @ newline @ newline"

definition ToHCL ::
  "((string \<times> string list) list \<Rightarrow> (string \<times> string list) list) \<Rightarrow> BaoPolicy \<Rightarrow> string" where
  "ToHCL visit p = concat (map (ruleHCL visit) (Rules (Spec p)))"

definition GetPolicyName :: "BaoPolicy \<Rightarrow> string" where
  "GetPolicyName p = (if PolicyName (Spec p) \<noteq> [] then PolicyName (Spec p) else ObjectMeta.Name (Meta p))"

text \<open>
  What the policy-sync reconciler calls besides the Kubernetes client.
  \<^item> \<open>WriteSecret\<close>: \<open>OpenBaoClient.WriteSecret(ctx, path, data)\<close>, an error or a response the
    reconciler ignores; \<open>None\<close> when the reconciler's \<open>OpenBaoClient\<close> is nil.
  \<^item> \<open>RangeOrder\<close>: the order in which this reconcile's \<open>ToHCL\<close> visits a map.
\<close>

record PolicyEnv = "BaoPolicy ClientEnv" +
  WriteSecret :: "(string \<Rightarrow> (string \<times> jvalue) list \<Rightarrow> string + unit) option"
  RangeOrder :: "(string \<times> string list) list \<Rightarrow> (string \<times> string list) list"

definition baoPolicyFinalizer :: string where
  "baoPolicyFinalizer = ''kubebao.io/policy-finalizer''"

text \<open>A backend write call: the path and the data written.\<close>

type_synonym writeCall = "string \<times> (string \<times> jvalue) list"

text \<open>
  \<open>syncPolicy\<close> returns its error, the updated object and the backend writes it issued.
\<close>

definition syncPolicy :: "PolicyEnv \<Rightarrow> BaoPolicy \<Rightarrow> string option \<times> BaoPolicy \<times> writeCall list" where
  "syncPolicy E baoPolicy =
     (case WriteSecret E of
        None \<Rightarrow> (Some ''OpenBao client not configured'', baoPolicy, [])
      | Some writeSecret \<Rightarrow>
          let policyHCL = ToHCL (RangeOrder E) baoPolicy;
              policyName = GetPolicyName baoPolicy;
              hash = sha256_Sum256 E policyHCL;
              version = hex_EncodeToString (take 8 hash)
          in if PolicyVersion (Status baoPolicy) = version then (None, baoPolicy, [])
             else
               let path = ''sys/policies/acl/'' @ policyName;
                   data = [(''policy'', JString policyHCL)]
               in (case writeSecret path data of
                     Inl err \<Rightarrow>
                       (Some (''failed to write policy to OpenBao: '' @ err), baoPolicy,
                        [(path, data)])
                   | Inr resp \<Rightarrow>
                       (None,
                        baoPolicy\<lparr>Status := (Status baoPolicy)
                          \<lparr>PolicyVersion := version, AppliedPolicyName := policyName\<rparr>\<rparr>,
                        [(path, data)])))"

text \<open>
  \<open>BaoPolicyReconciler.handleDeletion\<close>: the deletion of the backend policy is only logged.
\<close>

definition BaoPolicyReconciler_handleDeletion :: "PolicyEnv \<Rightarrow> BaoPolicy \<Rightarrow> reconcileResult" where
  "BaoPolicyReconciler_handleDeletion E baoPolicy =
     (if ContainsFinalizer (Meta baoPolicy) baoPolicyFinalizer
      then (case Update E (baoPolicy\<lparr>Meta := RemoveFinalizer (Meta baoPolicy) baoPolicyFinalizer\<rparr>) of
              Some err \<Rightarrow> (\<lparr>RequeueAfter = 0\<rparr>, Some err)
            | None \<Rightarrow> (\<lparr>RequeueAfter = 0\<rparr>, None))
      else (\<lparr>RequeueAfter = 0\<rparr>, None))"

definition setPolicyCondition ::
  "PolicyEnv \<Rightarrow> BaoPolicy \<Rightarrow> string \<Rightarrow> string \<Rightarrow> string \<Rightarrow> string \<Rightarrow> BaoPolicy" where
  "setPolicyCondition E baoPolicy condType status reason message =
     baoPolicy\<lparr>Status := (Status baoPolicy)
       \<lparr>Conditions := setCondition (Conditions (Status baoPolicy)) (Now E)
                         condType status reason message\<rparr>\<rparr>"

text \<open>
  \<open>BaoPolicyReconciler.Reconcile\<close> returns the pair \<open>(ctrl.Result, error)\<close>, the object as it
  last handed it to \<open>Status().Update\<close> (if it did) and the backend writes it issued.
\<close>

definition BaoPolicyReconciler_Reconcile ::
  "PolicyEnv \<Rightarrow> reconcileResult \<times> BaoPolicy option \<times> writeCall list" where
  "BaoPolicyReconciler_Reconcile E =
     (case Get E of
        NotFound \<Rightarrow> ((\<lparr>RequeueAfter = 0\<rparr>, None), None, [])
      | GetError err \<Rightarrow> ((\<lparr>RequeueAfter = 0\<rparr>, Some err), None, [])
      | Found fetched \<Rightarrow>
          if DeletionTimestamp (Meta fetched) \<noteq> None
          then (BaoPolicyReconciler_handleDeletion E fetched, None, [])
          else
            let withFinalizer = fetched\<lparr>Meta := AddFinalizer (Meta fetched) baoPolicyFinalizer\<rparr>;
                updateErr = (if \<not> ContainsFinalizer (Meta fetched) baoPolicyFinalizer
                             then Update E withFinalizer else None)
            in case updateErr of
              Some err \<Rightarrow> ((\<lparr>RequeueAfter = 0\<rparr>, Some err), None, [])
            | None \<Rightarrow>
                (case syncPolicy E withFinalizer of
                   (Some err, failed, writes) \<Rightarrow>
                     let reported = setPolicyCondition E failed ConditionTypeReady ConditionFalse
                                      ''Failed'' err
                     in (case StatusUpdate E reported of
                           Some err' \<Rightarrow> ((\<lparr>RequeueAfter = 0\<rparr>, Some err'), Some reported, writes)
                         | None \<Rightarrow> ((\<lparr>RequeueAfter = 30 * Second\<rparr>, None), Some reported, writes))
                 | (None, synced, writes) \<Rightarrow>
                     let reported = setPolicyCondition E
                           (synced\<lparr>Status := (Status synced)
                              \<lparr>ObservedGeneration := Generation (Meta synced),
                               LastSyncTime := Some (Now E)\<rparr>\<rparr>)
                           ConditionTypeReady ConditionTrue ''Success'' ''Policy synced successfully''
                     in (case StatusUpdate E reported of
                           Some err \<Rightarrow> ((\<lparr>RequeueAfter = 0\<rparr>, Some err), Some reported, writes)
                         | None \<Rightarrow> ((\<lparr>RequeueAfter = 5 * Minute\<rparr>, None), Some reported, writes))))"

section \<open>Inputs used as examples\<close>

text \<open>\<open>%v\<close> prints a string as it is; the other cases are not needed by the examples.\<close>

definition exampleSprintv :: "jvalue \<Rightarrow> string" where
  "exampleSprintv v = (case v of JString s \<Rightarrow> s | JNumber n \<Rightarrow> n | _ \<Rightarrow> ''<other>'')"

text \<open>
  The end-to-end scenario of the specification: a BaoSecret for \<open>myapp/database\<close> with
  refresh interval \<open>30s\<close>, against a backend holding a user name and a password.
\<close>

definition exampleParseDuration :: "string \<Rightarrow> string + duration" where
  "exampleParseDuration s =
     (if s = ''30s'' then Inr (30 * Second)
      else if s = ''2h'' then Inr (2 * Hour)
      else Inl ''time: invalid duration'')"

definition exampleBaoSecret :: BaoSecret where
  "exampleBaoSecret =
     \<lparr>Meta = \<lparr>ObjectMeta.Name = ''db'', ObjectMeta.Namespace = ''default'', Generation = 1,
               DeletionTimestamp = None, Finalizers = []\<rparr>,
      Spec = \<lparr>SecretPath = ''myapp/database'', SecretKey = [],
               Target = \<lparr>SecretTarget.Name = ''db-secret'', SecretTarget.Namespace = [],
                         CreationPolicy = []\<rparr>,
               RefreshInterval = ''30s'', Template = None, SuspendSync = False\<rparr>,
      Status = \<lparr>Conditions = [], LastSyncTime = None, ObservedGeneration = 0,
                 SecretVersion = [], SyncedSecretName = [], SyncedSecretNamespace = []\<rparr>\<rparr>"

definition exampleSecretEnv :: SecretEnv where
  "exampleSecretEnv =
     \<lparr>Get = Found exampleBaoSecret,
      Update = (\<lambda>obj. None),
      StatusUpdate = (\<lambda>obj. None),
      Now = 1000,
      sha256_Sum256 = (\<lambda>bytes. replicate 32 (CHR 0x00)),
      KVRead = Some (\<lambda>path. Inr [(''username'', JString ''dbuser''),
                                  (''password'', JString ''dbpass123'')]),
      CreateOrUpdate = (\<lambda>name namespace data version. None),
      Sprintv = exampleSprintv,
      ParseDuration = exampleParseDuration,
      json_Marshal = (\<lambda>data. ''{}'')\<rparr>"

text \<open>
  A policy whose one rule allows two parameters, and the object the first reconcile reports
  for it. \<open>exampleDigest\<close> stands in for SHA-256 in the examples: a polynomial checksum
  modulo \<open>2^64\<close> in the first 8 of 32 bytes. \<open>examplePolicyEnv stored visit\<close> is a reconcile
  in which the API server holds \<open>stored\<close>, every call succeeds and \<open>ToHCL\<close> visits a map in
  the order \<open>visit\<close>.
\<close>

definition exampleDigest :: "string \<Rightarrow> string" where
  "exampleDigest s =
     (let n = foldl (\<lambda>acc c. (acc * 31 + of_char c) mod 18446744073709551616) (0::int) s
      in map (\<lambda>i. char_of (n div 256 ^ i)) [0..<8] @ replicate 24 (CHR 0x00))"

definition examplePolicy :: BaoPolicy where
  "examplePolicy =
     \<lparr>Meta = \<lparr>ObjectMeta.Name = ''app'', ObjectMeta.Namespace = ''default'', Generation = 1,
               DeletionTimestamp = None, Finalizers = []\<rparr>,
      Spec = \<lparr>PolicyName = [],
               Rules = [\<lparr>Path = ''secret/data/app/*'', Capabilities = [''read''],
                         AllowedParameters = [(''a'', []), (''b'', [])],
                         DeniedParameters = [], RequiredParameters = [],
                         MinWrappingTTL = [], MaxWrappingTTL = []\<rparr>]\<rparr>,
      Status = \<lparr>Conditions = [], LastSyncTime = None, ObservedGeneration = 0,
                 PolicyVersion = [], AppliedPolicyName = []\<rparr>\<rparr>"

definition exampleReported :: BaoPolicy where
  "exampleReported =
     \<lparr>Meta = \<lparr>ObjectMeta.Name = ''app'', ObjectMeta.Namespace = ''default'', Generation = 1,
               DeletionTimestamp = None, Finalizers = [''kubebao.io/policy-finalizer'']\<rparr>,
      Spec = \<lparr>PolicyName = [],
               Rules = [\<lparr>Path = ''secret/data/app/*'', Capabilities = [''read''],
                         AllowedParameters = [(''a'', []), (''b'', [])],
                         DeniedParameters = [], RequiredParameters = [],
                         MinWrappingTTL = [], MaxWrappingTTL = []\<rparr>]\<rparr>,
      Status = \<lparr>Conditions = [\<lparr>Type = ''Ready'', Condition.Status = ''True'',
                                 LastTransitionTime = 1000, Reason = ''Success'',
                                 Message = ''Policy synced successfully''\<rparr>],
                 LastSyncTime = Some 1000, ObservedGeneration = 1,
                 PolicyVersion = ''c1f486a41d4f6fa9'', AppliedPolicyName = ''app''\<rparr>\<rparr>"

definition examplePolicyEnv ::
  "BaoPolicy \<Rightarrow> ((string \<times> string list) list \<Rightarrow> (string \<times> string list) list) \<Rightarrow> PolicyEnv" where
  "examplePolicyEnv stored visit =
     \<lparr>Get = Found stored,
      Update = (\<lambda>obj. None),
      StatusUpdate = (\<lambda>obj. None),
      Now = 1000,
      sha256_Sum256 = exampleDigest,
      WriteSecret = Some (\<lambda>path data. Inr ()),
      RangeOrder = visit\<rparr>"

text \<open>
  A backend client with Kubernetes auth whose token expires at second 1000, and a backend at
  second 900 (100 seconds before the expiry) that answers the renewal with \<open>renew\<close> and
  every login with a fresh token leased for an hour.
\<close>

definition exampleClient :: Client where
  "exampleClient =
     \<lparr>Client.config = \<lparr>Token = [],
                 KubernetesAuth = Some \<lparr>KubernetesAuthConfig.Role = ''kubebao'', MountPath = [],
                                         TokenPath = []\<rparr>,
                 TransitMount = ''transit''\<rparr>,
      Client.token = ''s.old'', Client.tokenExpiry = 1000 * Second\<rparr>"

definition exampleBackendEnv :: "string + Secret option \<Rightarrow> BackendEnv" where
  "exampleBackendEnv renew =
     \<lparr>RenewSelf = renew,
      Login = (\<lambda>path role jwt.
        Inr (Some \<lparr>RequestID = ''4f1c'', Secret.Data = None,
                    Auth = Some \<lparr>ClientToken = ''s.new'', LeaseDuration = 3600\<rparr>\<rparr>)),
      LogicalRead = (\<lambda>path. Inr None),
      LogicalWrite = (\<lambda>path data. Inr None),
      ReadFile = (\<lambda>path. Inr ''jwt''),
      Getenv = (\<lambda>name. []),
      Clock = (\<lambda>k. 900 * Second + int k)\<rparr>"

definition exampleRenewed :: Secret where
  "exampleRenewed =
     \<lparr>RequestID = ''77aa'', Secret.Data = None,
      Auth = Some \<lparr>ClientToken = ''s.old'', LeaseDuration = 1800\<rparr>\<rparr>"

text \<open>A renewal leased for \<open>10^10\<close> seconds, whose number of nanoseconds exceeds \<open>int64\<close>.\<close>

definition longRenewed :: Secret where
  "longRenewed =
     \<lparr>RequestID = ''77ab'', Secret.Data = None,
      Auth = Some \<lparr>ClientToken = ''s.old'', LeaseDuration = 10000000000\<rparr>\<rparr>"

text \<open>
  A plugin for the key \<open>kubebao-kms\<close>, and a backend whose answer to the read of
  \<open>transit/keys/kubebao-kms\<close> reports \<open>latest_version\<close> as the API client decodes it: a
  \<open>json.Number\<close> with the text \<open>version\<close>.
\<close>

definition exampleServer :: Server where
  "exampleServer =
     \<lparr>Server.config = \<lparr>KeyName = ''kubebao-kms'', KeyType = ''aes256-gcm96'',
                 CreateKeyIfNotExists = True\<rparr>,
      transit = exampleClient,
      keyID = ''kubebao-kms:v0'', healthy = True\<rparr>"

definition exampleKeyAnswer :: "string \<Rightarrow> Secret" where
  "exampleKeyAnswer version =
     \<lparr>RequestID = ''91c4'',
      Secret.Data = Some [(''name'', JString ''kubebao-kms''),
                          (''type'', JString ''aes256-gcm96''),
                          (''latest_version'', JNumber version),
                          (''exportable'', JBool False)],
      Auth = None\<rparr>"

definition exampleKmsEnv :: "string + Secret option \<Rightarrow> BackendEnv" where
  "exampleKmsEnv answer =
     (exampleBackendEnv (Inr (Some exampleRenewed)))
       \<lparr>LogicalRead := (\<lambda>path. if path = ''transit/keys/kubebao-kms'' then answer
                               else Inr None)\<rparr>"

text \<open>
  A mount of three objects: a field of a versioned secret, an object whose path holds
  nothing, and a second secret without version metadata. \<open>exampleCsiEnv clock written\<close> is a
  node where the fetcher's \<open>k\<close>-th reading of the clock is \<open>clock k\<close> and the backend answers
  every write with \<open>written\<close>.
\<close>

definition dbObject :: SecretObject where
  "dbObject =
     \<lparr>SecretObject.ObjectName = ''db-password'',
      SecretObject.SecretPath = ''secret/data/myapp/database'',
      SecretObject.SecretKey = ''password'', SecretArgs = [], Encoding = [],
      FilePermission = ''0400''\<rparr>"

definition missingObject :: SecretObject where
  "missingObject =
     \<lparr>SecretObject.ObjectName = ''missing'', SecretObject.SecretPath = ''secret/data/none'',
      SecretObject.SecretKey = [], SecretArgs = [], Encoding = [], FilePermission = []\<rparr>"

definition apiObject :: SecretObject where
  "apiObject =
     \<lparr>SecretObject.ObjectName = ''api-key'', SecretObject.SecretPath = ''myapp/api'',
      SecretObject.SecretKey = ''key'', SecretArgs = [], Encoding = [], FilePermission = []\<rparr>"

definition dynamicObject :: SecretObject where
  "dynamicObject =
     \<lparr>SecretObject.ObjectName = ''db-creds'', SecretObject.SecretPath = ''secret/creds/app'',
      SecretObject.SecretKey = ''password'', SecretArgs = [(''ttl'', ''1h'')], Encoding = [],
      FilePermission = []\<rparr>"

definition exampleCsiEnv :: "(nat \<Rightarrow> gotime) \<Rightarrow> string + Secret option \<Rightarrow> CsiEnv" where
  "exampleCsiEnv clock written =
     \<lparr>jsonUnmarshalStrings = (\<lambda>text.
        if text = ''{attributes}''
        then (Some [(''roleName'', ''app''), (''objects'', ''[objects]'')], None)
        else if text = ''{attributes of another role}''
        then (Some [(''roleName'', ''other''), (''objects'', ''[objects]'')], None)
        else if text = ''{secrets}''
        then (Some [(''csi.storage.k8s.io/serviceAccount.tokens'', ''jwt'')], None)
        else (None, Some ''invalid character'')),
      yamlUnmarshalObjects = (\<lambda>text.
        if text = ''[objects]'' then Inr [dbObject, missingObject, apiObject]
        else Inl ''yaml: unmarshal errors''),
      jsonUnmarshalObjects = (\<lambda>text. Inl ''invalid character''),
      apiNewClient = (\<lambda>address. None),
      loginWrite = (\<lambda>path role jwt.
        if role = ''app''
        then Inr (Some \<lparr>RequestID = ''4f1c'', Secret.Data = None,
                         Auth = Some \<lparr>ClientToken = ''s.new'', LeaseDuration = 3600\<rparr>\<rparr>)
        else Inl ''permission denied''),
      readFile = (\<lambda>path. Inl ''no such file''),
      getenv = (\<lambda>name. []),
      loginNow = 0,
      clientRead = (\<lambda>client path.
        if path = ''secret/data/myapp/database''
        then Inr (Some \<lparr>RequestID = ''0f3a9c2e-77aa'',
                         Secret.Data = Some
                           [(''data'', JObject [(''username'', JString ''dbuser''),
                                                (''password'', JString ''dbpass123'')]),
                            (''metadata'', JObject [(''version'', JNumber ''3'')])],
                         Auth = None\<rparr>)
        else if path = ''secret/data/myapp/api''
        then Inr (Some \<lparr>RequestID = ''5b7d'',
                         Secret.Data = Some [(''data'', JObject [(''key'', JString ''k-123'')])],
                         Auth = None\<rparr>)
        else Inr None),
      clientWrite = (\<lambda>client path data. written),
      timeNow = clock,
      fmtValue = exampleSprintv,
      jsonMarshal = (\<lambda>dataMap. Inr ''{}''),
      base64Encode = (\<lambda>content. content),
      sscanOctal = (\<lambda>perm. if perm = ''400'' then 256 else 0)\<rparr>"

definition exampleProviderConfig :: ProviderConfig where
  "exampleProviderConfig =
     \<lparr>CacheTTL = 5 * Minute, DefaultAuthMethod = ''kubernetes'', DefaultRole = [],
      OpenBao_Address = ''http://127.0.0.1:8200''\<rparr>"

definition exampleAuthClient :: AuthenticatedClient where
  "exampleAuthClient =
     \<lparr>config = \<lparr>OpenBaoAddress = ''http://127.0.0.1:8200'', AuthMethod = ''kubernetes'',
                 AuthMountPath = ''kubernetes'', Role = ''app'', Namespace = [],
                 ServiceAccountToken = ''jwt'', Audience = []\<rparr>,
      token = ''s.new'', tokenExpiry = 3600 * Second\<rparr>"

definition emptyFetcher :: fetcherState where
  "emptyFetcher = \<lparr>cache = \<lparr>entries = Map.empty, ttl = 5 * Minute\<rparr>, reads = 0, calls = []\<rparr>"

definition exampleRequest :: MountRequest where
  "exampleRequest =
     \<lparr>Attributes = ''{attributes}'', Secrets = ''{secrets}'', TargetPath = ''/mnt/secrets'',
      Permission = ''420''\<rparr>"

definition exampleClock :: "nat \<Rightarrow> gotime" where
  "exampleClock k = 1000 * Second + int k"

text \<open>Answers of the backend to a write: with data, with a short request id, without data.\<close>

definition writtenSecret :: Secret where
  "writtenSecret =
     \<lparr>RequestID = ''0f3a9c2e-77aa'', Secret.Data = Some [(''password'', JString ''pw'')],
      Auth = None\<rparr>"

definition writtenShortID :: Secret where
  "writtenShortID =
     \<lparr>RequestID = ''0f3a'', Secret.Data = Some [(''password'', JString ''pw'')], Auth = None\<rparr>"

definition writtenNoData :: Secret where
  "writtenNoData = \<lparr>RequestID = ''0f3a9c2e-77aa'', Secret.Data = None, Auth = None\<rparr>"

text \<open>What the fetches of the first and of the third example object return.\<close>

definition dbFetched :: FetchedSecret where
  "dbFetched =
     \<lparr>ObjectName = ''db-password'', Content = ''dbpass123'', FetchedSecret.Version = ''3'',
      FetchedSecret.Mode = 256\<rparr>"

definition apiFetched :: FetchedSecret where
  "apiFetched =
     \<lparr>ObjectName = ''api-key'', Content = ''k-123'', FetchedSecret.Version = ''1'',
      FetchedSecret.Mode = 420\<rparr>"

definition exampleParams :: MountParams where
  "exampleParams =
     \<lparr>RoleName = ''app'', MountParams.OpenBaoAddress = [],
      MountParams.AuthMethod = ''kubernetes'', MountParams.AuthMountPath = ''kubernetes'',
      MountParams.Namespace = [], Objects = [dbObject, missingObject, apiObject],
      MountParams.Audience = []\<rparr>"

definition otherParams :: MountParams where
  "otherParams = exampleParams\<lparr>RoleName := ''other''\<rparr>"

text \<open>
  A mount of two objects, the second a dynamic secret: the node of \<open>exampleCsiEnv\<close> with
  another list of objects.
\<close>

definition dynamicCsiEnv :: "string + Secret option \<Rightarrow> CsiEnv" where
  "dynamicCsiEnv written =
     (exampleCsiEnv exampleClock written)
       \<lparr>yamlUnmarshalObjects := (\<lambda>text.
          if text = ''[objects]'' then Inr [dbObject, dynamicObject]
          else Inl ''yaml: unmarshal errors'')\<rparr>"

definition dynamicParams :: MountParams where
  "dynamicParams = exampleParams\<lparr>Objects := [dbObject, dynamicObject]\<rparr>"



chapter \<open>Verification\<close>

section \<open>Template substitution\<close>

lemma indexOf_loop_found:
  "indexOf_loop i s substr \<ge> 0 \<Longrightarrow>
     take (length substr) (drop (nat (indexOf_loop i s substr)) s) = substr"
proof (induction i s substr rule: indexOf_loop.induct)
  case (1 i s substr)
  show ?case
  proof (cases "int i \<le> int (length s) - int (length substr)")
    case False
    with "1.prems" show ?thesis by (simp add: indexOf_loop.simps [of i])
  next
    case inr: True
    show ?thesis
    proof (cases "take (length substr) (drop i s) = substr")
      case True
      with inr show ?thesis by (simp add: indexOf_loop.simps [of i])
    next
      case False
      with inr have eq: "indexOf_loop i s substr = indexOf_loop (Suc i) s substr"
        by (simp add: indexOf_loop.simps [of i])
      from "1.IH" [OF inr False] "1.prems" show ?thesis unfolding eq by simp
    qed
  qed
qed

lemma indexOf_loop_occurs:
  "i \<le> length pre \<Longrightarrow> indexOf_loop i (pre @ old @ post) old \<ge> 0"
proof (induction "length pre - i" arbitrary: i)
  case 0
  then have i: "i = length pre" by simp
  show ?case unfolding i by (subst indexOf_loop.simps) simp
next
  case (Suc n)
  then have lt: "i < length pre" by simp
  have inr: "int i \<le> int (length (pre @ old @ post)) - int (length old)"
    using lt by simp
  show ?case
  proof (cases "take (length old) (drop i (pre @ old @ post)) = old")
    case True
    with inr show ?thesis by (simp add: indexOf_loop.simps [of i])
  next
    case False
    from Suc.hyps(1) [of "Suc i"] Suc.hyps(2) lt
    have "indexOf_loop (Suc i) (pre @ old @ post) old \<ge> 0" by simp
    with inr False show ?thesis by (simp add: indexOf_loop.simps [of i])
  qed
qed

lemma indexOf_occurs: "indexOf (pre @ old @ post) old \<ge> 0"
  by (simp add: indexOf_def indexOf_loop_occurs)

lemma indexOf_found:
  assumes "indexOf s old \<ge> 0"
  shows "s = take (nat (indexOf s old)) s @ old @ drop (nat (indexOf s old) + length old) s"
proof -
  let ?i = "nat (indexOf s old)"
  from indexOf_loop_found [of 0 s old] assms
  have a: "take (length old) (drop ?i s) = old"
    by (simp add: indexOf_def)
  have "s = take ?i s @ drop ?i s" by simp
  also have "drop ?i s = take (length old) (drop ?i s) @ drop (length old) (drop ?i s)"
    by (simp only: append_take_drop_id)
  finally show ?thesis using a by (simp add: add.commute)
qed

lemma replaceFirst_changes:
  assumes "indexOf s old \<ge> 0" "new \<noteq> old"
  shows "replaceFirst s old new \<noteq> s"
proof
  let ?i = "nat (indexOf s old)"
  assume "replaceFirst s old new = s"
  with assms(1) have "take ?i s @ new @ drop (?i + length old) s = s"
    by (simp add: replaceFirst_def Let_def)
  also note indexOf_found [OF assms(1)]
  finally have "new = old" by simp
  with assms(2) show False ..
qed

lemma replaceFirst_keeps_occurrence:
  assumes "indexOf s old \<ge> 0" "indexOf new old \<ge> 0"
  shows "indexOf (replaceFirst s old new) old \<ge> 0"
proof -
  let ?i = "nat (indexOf s old)" and ?j = "nat (indexOf new old)"
  have r: "replaceFirst s old new = take ?i s @ new @ drop (?i + length old) s"
    using assms(1) by (simp add: replaceFirst_def Let_def)
  have "new = take ?j new @ old @ drop (?j + length old) new"
    by (rule indexOf_found [OF assms(2)])
  then have "replaceFirst s old new =
      (take ?i s @ take ?j new) @ old @ (drop (?j + length old) new @ drop (?i + length old) s)"
    unfolding r by (metis append.assoc)
  then show ?thesis by (metis indexOf_occurs)
qed

lemma replaceAll_no_result:
  assumes "replaceAll s old new = Some y"
  shows "\<not> (indexOf s old \<ge> 0 \<and> indexOf new old \<ge> 0 \<and> new \<noteq> old)"
proof (rule replaceAll.raw_induct
    [where P = "\<lambda>s old new y. \<not> (indexOf s old \<ge> 0 \<and> indexOf new old \<ge> 0 \<and> new \<noteq> old)",
     OF _ assms])
  fix f s old new y
  assume IH: "\<And>s old new y. f s old new = Some y \<Longrightarrow>
      \<not> (indexOf s old \<ge> 0 \<and> indexOf new old \<ge> 0 \<and> new \<noteq> old)"
    and body: "(let newS = replaceFirst s old new
        in if newS = s then Some s else f newS old new) = Some y"
  show "\<not> (indexOf s old \<ge> 0 \<and> indexOf new old \<ge> 0 \<and> new \<noteq> old)"
  proof
    assume h: "indexOf s old \<ge> 0 \<and> indexOf new old \<ge> 0 \<and> new \<noteq> old"
    then have ne: "replaceFirst s old new \<noteq> s" by (simp add: replaceFirst_changes)
    with body have "f (replaceFirst s old new) old new = Some y"
      by (simp add: Let_def)
    from IH [OF this] h show False
      by (simp add: replaceFirst_keeps_occurrence)
  qed
qed

lemma replaceAll_None:
  "indexOf s old \<ge> 0 \<Longrightarrow> indexOf new old \<ge> 0 \<Longrightarrow> new \<noteq> old \<Longrightarrow> replaceAll s old new = None"
  using replaceAll_no_result [of s old new] by (cases "replaceAll s old new") auto

text \<open>
  Claim C10. The claim says that \<open>replaceAll s old new\<close> returns for every triple of strings,
  also when \<open>new\<close> contains \<open>old\<close>. The code does not: whenever \<open>old\<close> occurs in \<open>s\<close> and in
  \<open>new\<close>, and \<open>new\<close> differs from \<open>old\<close>, every pass of the loop changes the string and
  leaves an occurrence of \<open>old\<close> in it, so the call never returns.
\<close>

theorem replaceAll_diverges:
  assumes "indexOf s old \<ge> 0" and "indexOf new old \<ge> 0" and "new \<noteq> old"
  shows "replaceAll s old new = None"
  using assms by (rule replaceAll_None)

theorem replaceAll_diverges_witness:
  "indexOf ''{{ .Data.a }}'' ''{{ .Data.a }}'' \<ge> 0 \<and>
   indexOf ''x{{ .Data.a }}'' ''{{ .Data.a }}'' \<ge> 0 \<and>
   ''x{{ .Data.a }}'' \<noteq> ''{{ .Data.a }}'' \<and>
   replaceAll ''{{ .Data.a }}'' ''{{ .Data.a }}'' ''x{{ .Data.a }}'' = None"
proof -
  have a: "indexOf ''{{ .Data.a }}'' ''{{ .Data.a }}'' \<ge> 0"
    by (simp add: indexOf_def indexOf_loop.simps)
  have b: "indexOf ''x{{ .Data.a }}'' ''{{ .Data.a }}'' \<ge> 0"
    by (simp add: indexOf_def indexOf_loop.simps)
  have c: "''x{{ .Data.a }}'' \<noteq> ''{{ .Data.a }}''" by simp
  from a b c replaceAll_diverges [OF a b c] show ?thesis by simp
qed

text \<open>
  Claim C5. The claim says that every declared output field is the template with the
  placeholders of present source fields replaced. The code does not produce the field at all
  when the string form of a source field contains its own placeholder and differs from it:
  for a template that mentions the placeholder of the first source field visited,
  \<open>applyTemplate\<close> never returns. The defect is the unbounded loop of \<open>replaceAll\<close>.
\<close>

theorem applyTemplate_diverges:
  assumes "indexOf tmpl (placeholder k) \<ge> 0"
    and "indexOf (sprintv v) (placeholder k) \<ge> 0"
    and "sprintv v \<noteq> placeholder k"
  shows "applyTemplate sprintv data
           \<lparr>Data = dataTemplates, StringData = (key, tmpl) # stringTemplates\<rparr>
           ((k, v) # sourceData) = None"
proof -
  have "replaceAll tmpl (placeholder k) (sprintv v) = None"
    using assms by (rule replaceAll_None)
  then show ?thesis by (simp add: applyTemplate_def)
qed

theorem applyTemplate_diverges_witness:
  "indexOf ''user={{ .Data.a }}'' (placeholder ''a'') \<ge> 0 \<and>
   indexOf (exampleSprintv (JString ''x{{ .Data.a }}'')) (placeholder ''a'') \<ge> 0 \<and>
   exampleSprintv (JString ''x{{ .Data.a }}'') \<noteq> placeholder ''a'' \<and>
   applyTemplate exampleSprintv Map.empty
     \<lparr>Data = [], StringData = [(''out'', ''user={{ .Data.a }}'')]\<rparr>
     [(''a'', JString ''x{{ .Data.a }}'')] = None"
proof -
  have a: "indexOf ''user={{ .Data.a }}'' (placeholder ''a'') \<ge> 0"
    by (simp add: placeholder_def indexOf_def indexOf_loop.simps)
  have b: "indexOf (exampleSprintv (JString ''x{{ .Data.a }}'')) (placeholder ''a'') \<ge> 0"
    by (simp add: exampleSprintv_def placeholder_def indexOf_def indexOf_loop.simps)
  have c: "exampleSprintv (JString ''x{{ .Data.a }}'') \<noteq> placeholder ''a''"
    by (simp add: exampleSprintv_def placeholder_def)
  note applyTemplate_diverges
    [where sprintv = exampleSprintv and v = "JString ''x{{ .Data.a }}''" and k = "''a''"
       and tmpl = "''user={{ .Data.a }}''" and data = Map.empty and dataTemplates = "[]"
       and key = "''out''" and stringTemplates = "[]" and sourceData = "[]"]
  from this [OF a b c] a b c show ?thesis by simp
qed

section \<open>Refresh interval\<close>

text \<open>
  Claim C7. An empty or unparsable refresh-interval string gives exactly one hour; a
  parsable duration below one minute gives exactly one minute; any other parsable duration
  is used as it is.
\<close>

theorem parseRefreshInterval_requeue:
  "(interval = [] \<or> parseDuration interval = Inl err \<longrightarrow>
      parseRefreshInterval parseDuration interval = Hour) \<and>
   (interval \<noteq> [] \<and> parseDuration interval = Inr d \<and> d < Minute \<longrightarrow>
      parseRefreshInterval parseDuration interval = Minute) \<and>
   (interval \<noteq> [] \<and> parseDuration interval = Inr d \<and> \<not> d < Minute \<longrightarrow>
      parseRefreshInterval parseDuration interval = d) \<and>
   (Get E = Found baoSecret \<and> DeletionTimestamp (Meta baoSecret) = None \<and>
    \<not> SuspendSync (Spec baoSecret) \<and>
    syncSecret E (baoSecret\<lparr>Meta := AddFinalizer (Meta baoSecret) baoSecretFinalizer\<rparr>)
      = Some (None, synced) \<and>
    BaoSecretReconciler_Reconcile E = Some (res, None) \<longrightarrow>
      RequeueAfter res =
        parseRefreshInterval (ParseDuration E) (RefreshInterval (Spec baoSecret)))"
proof -
  have spec: "Spec synced = Spec b" if "syncSecret E b = Some (None, synced)" for b
    using that
    by (auto simp: syncSecret_def Let_def split: option.splits sum.splits if_splits)
  have "RequeueAfter res =
          parseRefreshInterval (ParseDuration E) (RefreshInterval (Spec baoSecret))"
    if "Get E = Found baoSecret" "DeletionTimestamp (Meta baoSecret) = None"
      "\<not> SuspendSync (Spec baoSecret)"
      "syncSecret E (baoSecret\<lparr>Meta := AddFinalizer (Meta baoSecret) baoSecretFinalizer\<rparr>)
         = Some (None, synced)"
      "BaoSecretReconciler_Reconcile E = Some (res, None)"
  proof -
    from spec [OF that(4)] have s: "Spec synced = Spec baoSecret" by simp
    from that(5) show ?thesis
      unfolding BaoSecretReconciler_Reconcile_def Let_def
      by (auto simp: that(1-4) s split: option.splits)
  qed
  then show ?thesis
    by (auto simp: parseRefreshInterval_def defaultRefreshInterval_def)
qed

theorem parseRefreshInterval_requeue_witness:
  "(''30s'' \<noteq> [] \<and> exampleParseDuration ''30s'' = Inr (30 * Second) \<and> 30 * Second < Minute) \<and>
   parseRefreshInterval exampleParseDuration ''30s'' = Minute \<and>
   (''2h'' \<noteq> [] \<and> exampleParseDuration ''2h'' = Inr (2 * Hour) \<and> \<not> 2 * Hour < Minute) \<and>
   parseRefreshInterval exampleParseDuration ''2h'' = 2 * Hour \<and>
   exampleParseDuration ''soon'' = Inl ''time: invalid duration'' \<and>
   parseRefreshInterval exampleParseDuration ''soon'' = Hour \<and>
   Get exampleSecretEnv = Found exampleBaoSecret \<and>
   DeletionTimestamp (Meta exampleBaoSecret) = None \<and>
   \<not> SuspendSync (Spec exampleBaoSecret) \<and>
   BaoSecretReconciler_Reconcile exampleSecretEnv = Some (\<lparr>RequeueAfter = Minute\<rparr>, None)"
proof -
  have p30: "''30s'' \<noteq> [] \<and> exampleParseDuration ''30s'' = Inr (30 * Second) \<and> 30 * Second < Minute"
    by (simp add: exampleParseDuration_def Minute_def Second_def)
  have p2h: "''2h'' \<noteq> [] \<and> exampleParseDuration ''2h'' = Inr (2 * Hour) \<and> \<not> 2 * Hour < Minute"
    by (simp add: exampleParseDuration_def Hour_def Minute_def Second_def)
  have bad: "exampleParseDuration ''soon'' = Inl ''time: invalid duration''"
    by (simp add: exampleParseDuration_def)
  have get: "Get exampleSecretEnv = Found exampleBaoSecret"
    by (simp add: exampleSecretEnv_def)
  have live: "DeletionTimestamp (Meta exampleBaoSecret) = None"
    and run: "\<not> SuspendSync (Spec exampleBaoSecret)"
    by (simp_all add: exampleBaoSecret_def)
  have "\<exists>synced. syncSecret exampleSecretEnv
          (exampleBaoSecret\<lparr>Meta := AddFinalizer (Meta exampleBaoSecret) baoSecretFinalizer\<rparr>)
        = Some (None, synced)"
    by (simp add: syncSecret_def exampleSecretEnv_def exampleBaoSecret_def Let_def)
  then obtain synced where sync: "syncSecret exampleSecretEnv
          (exampleBaoSecret\<lparr>Meta := AddFinalizer (Meta exampleBaoSecret) baoSecretFinalizer\<rparr>)
        = Some (None, synced)" ..
  have upd: "Update exampleSecretEnv obj = None" "StatusUpdate exampleSecretEnv obj = None"
    for obj by (simp_all add: exampleSecretEnv_def)
  have "\<exists>res. BaoSecretReconciler_Reconcile exampleSecretEnv = Some (res, None)"
    unfolding BaoSecretReconciler_Reconcile_def Let_def get
    by (simp add: live run sync upd)
  then obtain res where rec: "BaoSecretReconciler_Reconcile exampleSecretEnv = Some (res, None)" ..
  have a: "parseRefreshInterval exampleParseDuration ''30s'' = Minute"
    using parseRefreshInterval_requeue [of "''30s''" exampleParseDuration _ "30 * Second"] p30
    by blast
  have b: "parseRefreshInterval exampleParseDuration ''2h'' = 2 * Hour"
    using parseRefreshInterval_requeue [of "''2h''" exampleParseDuration _ "2 * Hour"] p2h
    by blast
  have c: "parseRefreshInterval exampleParseDuration ''soon'' = Hour"
    using parseRefreshInterval_requeue [of "''soon''" exampleParseDuration] bad
    by blast
  have "RequeueAfter res =
      parseRefreshInterval (ParseDuration exampleSecretEnv)
        (RefreshInterval (Spec exampleBaoSecret))"
    using parseRefreshInterval_requeue [where E = exampleSecretEnv
        and baoSecret = exampleBaoSecret and synced = synced and res = res]
      get live run sync rec by blast
  also have "\<dots> = Minute"
    using a by (simp add: exampleSecretEnv_def exampleBaoSecret_def)
  finally have "res = \<lparr>RequeueAfter = Minute\<rparr>" by (cases res) simp
  with rec p30 p2h bad get live run a b c show ?thesis by simp
qed

section \<open>Policy sync: the hash gate\<close>

lemma ToHCL_Spec: "Spec p = Spec q \<Longrightarrow> ToHCL visit p = ToHCL visit q"
  by (simp add: ToHCL_def)

lemma syncPolicy_unchanged:
  assumes "WriteSecret E = Some w"
    and "PolicyVersion (Status p) =
           hex_EncodeToString (take 8 (sha256_Sum256 E (ToHCL (RangeOrder E) p)))"
  shows "syncPolicy E p = (None, p, [])"
  using assms by (simp add: syncPolicy_def Let_def)

lemma syncPolicy_ok:
  assumes "syncPolicy E p = (None, q, writes)"
  shows "Spec q = Spec p \<and> Meta q = Meta p \<and>
         PolicyVersion (Status q) =
           hex_EncodeToString (take 8 (sha256_Sum256 E (ToHCL (RangeOrder E) p)))"
  using assms
  by (auto simp: syncPolicy_def Let_def split: option.splits if_splits sum.splits)

lemma Reconcile_success:
  assumes run: "BaoPolicyReconciler_Reconcile E = ((res, None), Some reported, writes)"
    and ok: "RequeueAfter res = 5 * Minute"
    and get: "Get E = Found fetched"
  shows "Spec reported = Spec fetched \<and>
         Meta reported = AddFinalizer (Meta fetched) baoPolicyFinalizer \<and>
         DeletionTimestamp (Meta fetched) = None \<and>
         PolicyVersion (Status reported) =
           hex_EncodeToString (take 8 (sha256_Sum256 E (ToHCL (RangeOrder E) fetched)))"
proof -
  let ?wf = "fetched\<lparr>Meta := AddFinalizer (Meta fetched) baoPolicyFinalizer\<rparr>"
  have ne: "(30::int) * Second \<noteq> 5 * Minute" by (simp add: Minute_def Second_def)
  obtain err q ws where sp: "syncPolicy E ?wf = (err, q, ws)" by (cases "syncPolicy E ?wf")
  from run get have live: "DeletionTimestamp (Meta fetched) = None"
    by (auto simp: BaoPolicyReconciler_Reconcile_def split: if_splits)
  from run get live ok ne sp have e: "err = None"
    and r: "reported = setPolicyCondition E
               (q\<lparr>Status := (Status q)
                  \<lparr>ObservedGeneration := Generation (Meta q), LastSyncTime := Some (Now E)\<rparr>\<rparr>)
               ConditionTypeReady ConditionTrue ''Success'' ''Policy synced successfully''"
    by (auto simp: BaoPolicyReconciler_Reconcile_def Let_def split: option.splits if_splits)
  from syncPolicy_ok [OF sp [unfolded e]] 
  have "Spec q = Spec ?wf" "Meta q = Meta ?wf" "PolicyVersion (Status q) =
           hex_EncodeToString (take 8 (sha256_Sum256 E (ToHCL (RangeOrder E) ?wf)))" by simp_all
  moreover have "ToHCL (RangeOrder E) ?wf = ToHCL (RangeOrder E) fetched" by (rule ToHCL_Spec) simp
  ultimately show ?thesis using live by (simp add: r setPolicyCondition_def)
qed

text \<open>
  Claim C4. The first half of the claim holds (\<open>syncPolicy_unchanged\<close>: when the stored
  version equals the hash of the rendered document, no write is issued and the object is
  unchanged). The second half does not: \<open>ToHCL\<close> renders \<open>AllowedParameters\<close> in the order
  in which Go's \<open>range\<close> visits the map, which differs from one call to the next. When a
  first reconcile has succeeded and the second one, on the object the first reported and so
  on the identical rule list, visits the map in an order whose rendering hashes differently,
  the second reconcile issues a backend write.
\<close>

theorem BaoPolicy_second_reconcile_writes:
  assumes first: "BaoPolicyReconciler_Reconcile E1 = ((res1, None), Some reported, writes1)"
    and ok: "RequeueAfter res1 = 5 * Minute"
    and get1: "Get E1 = Found fetched"
    and get2: "Get E2 = Found reported"
    and w: "WriteSecret E2 = Some writeSecret"
    and sha: "sha256_Sum256 E2 = sha256_Sum256 E1"
    and differ: "hex_EncodeToString (take 8 (sha256_Sum256 E1 (ToHCL (RangeOrder E2) fetched))) \<noteq>
                 hex_EncodeToString (take 8 (sha256_Sum256 E1 (ToHCL (RangeOrder E1) fetched)))"
  shows "Spec reported = Spec fetched \<and>
         snd (snd (BaoPolicyReconciler_Reconcile E2)) =
           [(''sys/policies/acl/'' @ GetPolicyName fetched,
             [(''policy'', JString (ToHCL (RangeOrder E2) fetched))])]"
proof -
  note s = Reconcile_success [OF first ok get1]
  let ?wf = "reported\<lparr>Meta := AddFinalizer (Meta reported) baoPolicyFinalizer\<rparr>"
  have fin: "ContainsFinalizer (Meta reported) baoPolicyFinalizer"
    using s by (simp add: ContainsFinalizer_def AddFinalizer_def)
  have live: "DeletionTimestamp (Meta reported) = None"
    using s by (simp add: AddFinalizer_def)
  have h: "ToHCL (RangeOrder E2) ?wf = ToHCL (RangeOrder E2) fetched"
    by (rule ToHCL_Spec) (simp add: s)
  have n: "GetPolicyName ?wf = GetPolicyName fetched"
    using s by (simp add: GetPolicyName_def AddFinalizer_def)
  have "PolicyVersion (Status ?wf) =
      hex_EncodeToString (take 8 (sha256_Sum256 E1 (ToHCL (RangeOrder E1) fetched)))"
    using s by simp
  with differ have v: "PolicyVersion (Status ?wf) \<noteq>
      hex_EncodeToString (take 8 (sha256_Sum256 E2 (ToHCL (RangeOrder E2) ?wf)))"
    unfolding h sha by simp
  have "snd (snd (syncPolicy E2 ?wf)) =
      [(''sys/policies/acl/'' @ GetPolicyName fetched,
        [(''policy'', JString (ToHCL (RangeOrder E2) fetched))])]"
    using v w by (simp add: syncPolicy_def Let_def h n split: sum.splits)
  then show ?thesis
    using s get2 live fin
    by (auto simp: BaoPolicyReconciler_Reconcile_def Let_def split: option.splits prod.splits)
qed


lemma example_version_id:
  "hex_EncodeToString (take 8 (exampleDigest (ToHCL id examplePolicy))) = ''c1f486a41d4f6fa9''"
  by code_simp

lemma example_version_rev:
  "hex_EncodeToString (take 8 (exampleDigest (ToHCL rev examplePolicy))) = ''df917c3bce794eea''"
  by code_simp

lemma examplePolicyEnv_sel:
  "Get (examplePolicyEnv stored visit) = Found stored"
  "Update (examplePolicyEnv stored visit) obj = None"
  "StatusUpdate (examplePolicyEnv stored visit) obj = None"
  "Now (examplePolicyEnv stored visit) = 1000"
  "sha256_Sum256 (examplePolicyEnv stored visit) = exampleDigest"
  "WriteSecret (examplePolicyEnv stored visit) = Some (\<lambda>path data. Inr ())"
  "RangeOrder (examplePolicyEnv stored visit) = visit"
  by (simp_all add: examplePolicyEnv_def)

lemma example_first_pass:
  "BaoPolicyReconciler_Reconcile (examplePolicyEnv examplePolicy id) =
     ((\<lparr>RequeueAfter = 5 * Minute\<rparr>, None), Some exampleReported,
      [(''sys/policies/acl/app'', [(''policy'', JString (ToHCL id examplePolicy))])])"
proof -
  let ?wf = "examplePolicy\<lparr>Meta := AddFinalizer (Meta examplePolicy) baoPolicyFinalizer\<rparr>"
  have h: "ToHCL id ?wf = ToHCL id examplePolicy" by (rule ToHCL_Spec) simp
  have n: "GetPolicyName ?wf = ''app''"
    by (simp add: examplePolicy_def GetPolicyName_def AddFinalizer_def)
  have v: "PolicyVersion (Status ?wf) = []" by (simp add: examplePolicy_def)
  have sp: "syncPolicy (examplePolicyEnv examplePolicy id) ?wf =
     (None,
      ?wf\<lparr>Status := (Status ?wf)
          \<lparr>PolicyVersion := ''c1f486a41d4f6fa9'', AppliedPolicyName := ''app''\<rparr>\<rparr>,
      [(''sys/policies/acl/app'', [(''policy'', JString (ToHCL id examplePolicy))])])"
    unfolding syncPolicy_def Let_def examplePolicyEnv_sel h n v example_version_id
    by simp
  have live: "DeletionTimestamp (Meta examplePolicy) = None"
    "\<not> ContainsFinalizer (Meta examplePolicy) baoPolicyFinalizer"
    by (simp_all add: examplePolicy_def ContainsFinalizer_def)
  show ?thesis
    unfolding BaoPolicyReconciler_Reconcile_def Let_def examplePolicyEnv_sel
    by (simp add: live sp examplePolicyEnv_sel)
       (simp add: examplePolicy_def exampleReported_def Minute_def Second_def
          setPolicyCondition_def AddFinalizer_def baoPolicyFinalizer_def
          ConditionTypeReady_def ConditionTrue_def examplePolicyEnv_sel)
qed

theorem BaoPolicy_second_reconcile_writes_witness:
  "BaoPolicyReconciler_Reconcile (examplePolicyEnv examplePolicy id) =
     ((\<lparr>RequeueAfter = 5 * Minute\<rparr>, None), Some exampleReported,
      [(''sys/policies/acl/app'', [(''policy'', JString (ToHCL id examplePolicy))])]) \<and>
   Get (examplePolicyEnv examplePolicy id) = Found examplePolicy \<and>
   Get (examplePolicyEnv exampleReported rev) = Found exampleReported \<and>
   hex_EncodeToString (take 8 (exampleDigest (ToHCL rev examplePolicy))) \<noteq>
     hex_EncodeToString (take 8 (exampleDigest (ToHCL id examplePolicy))) \<and>
   Spec exampleReported = Spec examplePolicy \<and>
   snd (snd (BaoPolicyReconciler_Reconcile (examplePolicyEnv exampleReported rev))) =
     [(''sys/policies/acl/app'', [(''policy'', JString (ToHCL rev examplePolicy))])]"
proof -
  have differ: "hex_EncodeToString (take 8 (exampleDigest (ToHCL rev examplePolicy))) \<noteq>
                hex_EncodeToString (take 8 (exampleDigest (ToHCL id examplePolicy)))"
    unfolding example_version_id example_version_rev by simp
  have name: "GetPolicyName examplePolicy = ''app''"
    by (simp add: GetPolicyName_def examplePolicy_def)
  from BaoPolicy_second_reconcile_writes [where ?E1.0 = "examplePolicyEnv examplePolicy id"
      and ?E2.0 = "examplePolicyEnv exampleReported rev" and fetched = examplePolicy
      and reported = exampleReported, OF example_first_pass]
  have "Spec exampleReported = Spec examplePolicy \<and>
     snd (snd (BaoPolicyReconciler_Reconcile (examplePolicyEnv exampleReported rev))) =
       [(''sys/policies/acl/app'', [(''policy'', JString (ToHCL rev examplePolicy))])]"
    by (simp add: examplePolicyEnv_sel differ name)
  with example_first_pass differ show ?thesis by (simp add: examplePolicyEnv_sel)
qed

section \<open>Encryption plugin: health check and key id\<close>

lemma of_char_digitChar: "d < 10 \<Longrightarrow> of_char (digitChar d) = (48 + d :: nat)"
  by (simp add: digitChar_def)

lemma natOfDigits_fmtNat: "natOfDigits (fmtNat n) = n"
proof (induction n rule: fmtNat.induct)
  case (1 n)
  show ?case
  proof (cases "n < 10")
    case True
    then show ?thesis by (subst fmtNat.simps) (simp add: natOfDigits_def of_char_digitChar)
  next
    case False
    with 1 have IH: "natOfDigits (fmtNat (n div 10)) = n div 10" by simp
    have "natOfDigits (fmtNat n) = 10 * natOfDigits (fmtNat (n div 10)) + n mod 10"
      using False by (subst fmtNat.simps) (simp add: natOfDigits_def of_char_digitChar)
    then show ?thesis by (simp add: IH)
  qed
qed

lemma fmtNat_inj: "fmtNat a = fmtNat b \<Longrightarrow> a = b"
  by (metis natOfDigits_fmtNat)

lemma fmtNat_hd: "\<exists>d cs. d < 10 \<and> fmtNat n = digitChar d # cs"
proof (induction n rule: fmtNat.induct)
  case (1 n)
  show ?case
  proof (cases "n < 10")
    case True
    then show ?thesis by (subst fmtNat.simps) auto
  next
    case False
    with 1 obtain d cs where "d < 10" "fmtNat (n div 10) = digitChar d # cs" by auto
    with False show ?thesis by (subst fmtNat.simps) auto
  qed
qed

lemma digitChar_not_minus: "d < 10 \<Longrightarrow> digitChar d \<noteq> CHR ''-''"
proof
  assume "d < 10" "digitChar d = CHR ''-''"
  then have "of_char (digitChar d) = (of_char (CHR ''-'') :: nat)" by simp
  with \<open>d < 10\<close> show False by (simp add: of_char_digitChar)
qed

lemma fmtInt_inj: "fmtInt a = fmtInt b \<Longrightarrow> a = b"
proof -
  assume eq: "fmtInt a = fmtInt b"
  have neg_pos: False if "x < 0" "\<not> y < 0" "fmtInt x = fmtInt y" for x y
  proof -
    obtain d cs where "d < 10" "fmtNat (nat y) = digitChar d # cs" using fmtNat_hd by blast
    with that show False by (auto simp: fmtInt_def digitChar_not_minus dest: sym)
  qed
  show ?thesis
  proof (cases "a < 0"; cases "b < 0")
    assume "a < 0" "b < 0"
    with eq have "nat (- a) = nat (- b)" by (auto simp: fmtInt_def dest: fmtNat_inj)
    with \<open>a < 0\<close> \<open>b < 0\<close> show ?thesis by simp
  next
    assume "a < 0" "\<not> b < 0"
    with neg_pos [of a b] eq show ?thesis by simp
  next
    assume "\<not> a < 0" "b < 0"
    with neg_pos [of b a] eq show ?thesis by simp
  next
    assume "\<not> a < 0" "\<not> b < 0"
    with eq have "nat a = nat b" by (auto simp: fmtInt_def dest: fmtNat_inj)
    with \<open>\<not> a < 0\<close> \<open>\<not> b < 0\<close> show ?thesis by simp
  qed
qed

lemma formatKeyID_inj: "formatKeyID name a = formatKeyID name b \<Longrightarrow> a = b"
  by (simp add: formatKeyID_def fmtInt_inj)

lemma authenticateKubernetes_config:
  "Client.config (fst (snd (authenticateKubernetes E now c k8sAuth))) = Client.config c"
  by (simp add: authenticateKubernetes_def Let_def if_distrib [of Client.config]
      split: sum.split option.split split del: if_split cong: if_cong)

lemma authenticate_config: "Client.config (fst (snd (authenticate E now c))) = Client.config c"
  by (simp add: authenticate_def authenticateKubernetes_config split: option.split)

lemma RefreshToken_config_sel:
  "Client.config (fst (snd (RefreshToken E c))) = Client.config c"
  by (simp add: RefreshToken_def Let_def authenticate_config case_prod_beta
      split: sum.split option.split)

lemma RefreshToken_config:
  "RefreshToken E c = (err, c', sent) \<Longrightarrow> Client.config c' = Client.config c"
  using RefreshToken_config_sel [of E c] by simp

lemma GetKeyInfo_version:
  assumes "LogicalRead E (TransitMount (Client.config t) @ ''/keys/'' @ keyName) = Inr (Some resp)"
    and "Secret.Data resp = Some respData"
  shows "\<exists>info t' sent. GetKeyInfo E t keyName = (Inr info, t', sent) \<and>
     LatestVersion info =
       (case map_of respData ''latest_version'' of Some (JFloat64 v) \<Rightarrow> v | _ \<Rightarrow> 0)"
proof -
  obtain err c' sent where r: "RefreshToken E t = (err, c', sent)"
    by (cases "RefreshToken E t") auto
  from RefreshToken_config [OF r] assms show ?thesis
    by (simp add: GetKeyInfo_def TransitGetKeyInfo_def r Let_def)
qed

lemma fmtInt_0: "fmtInt 0 = ''0''"
  by code_simp

text \<open>
  Claim C2. When fetching the key metadata fails, the health check clears the healthy flag
  and keeps the stored key id. When it succeeds, it sets the flag and stores
  \<open>name:v<LatestVersion>\<close>, but \<open>TransitGetKeyInfo\<close> sets \<open>LatestVersion\<close> only from a
  \<open>float64\<close>, and the API client reports \<open>latest_version\<close> as a \<open>json.Number\<close>: whatever
  version the backend reports, the stored key id becomes \<open>name:v0\<close>. So when the backend's
  latest version goes from \<open>N\<close> to \<open>N + 1\<close>, a following \<open>Status\<close> call does not report
  \<open>name:v(N+1)\<close>, and two health checks that observe \<open>N\<close> and then \<open>N + 1\<close> report the same
  key id. Only a response whose \<open>latest_version\<close> is a \<open>float64\<close> would store its version.
\<close>

theorem performHealthCheck_keyID_stays_v0:
  "(fst (GetKeyInfo E (transit s) (KeyName (Server.config s))) = Inl err \<longrightarrow>
      healthy (performHealthCheck E s) = False \<and>
      keyID (performHealthCheck E s) = keyID s) \<and>
   (LogicalRead E (TransitMount (Client.config (transit s)) @ ''/keys/'' @
                   KeyName (Server.config s)) = Inr (Some resp) \<and>
    Secret.Data resp = Some respData \<and>
    map_of respData ''latest_version'' = Some (JNumber version) \<longrightarrow>
      healthy (performHealthCheck E s) = True \<and>
      KeyId (Server_Status (performHealthCheck E s)) = KeyName (Server.config s) @ '':v0'' \<and>
      (0 \<le> N \<longrightarrow>
         KeyId (Server_Status (performHealthCheck E s)) \<noteq>
           KeyName (Server.config s) @ '':v'' @ fmtInt (N + 1)) \<and>
      (LogicalRead E' (TransitMount (Client.config (transit s)) @ ''/keys/'' @
                       KeyName (Server.config s)) = Inr (Some resp') \<and>
       Secret.Data resp' = Some respData' \<and>
       map_of respData' ''latest_version'' = Some (JNumber version') \<longrightarrow>
         KeyId (Server_Status (performHealthCheck E' (performHealthCheck E s))) =
           KeyId (Server_Status (performHealthCheck E s)))) \<and>
   (LogicalRead E (TransitMount (Client.config (transit s)) @ ''/keys/'' @
                   KeyName (Server.config s)) = Inr (Some resp) \<and>
    Secret.Data resp = Some respData \<and>
    map_of respData ''latest_version'' = Some (JFloat64 v) \<longrightarrow>
      KeyId (Server_Status (performHealthCheck E s)) =
        KeyName (Server.config s) @ '':v'' @ fmtInt v)"
proof -
  let ?name = "KeyName (Server.config s)"
  let ?path = "TransitMount (Client.config (transit s)) @ ''/keys/'' @ ?name"
  have float: "keyID (performHealthCheck E s) = ?name @ '':v'' @ fmtInt v"
    if "LogicalRead E ?path = Inr (Some resp)" "Secret.Data resp = Some respData"
      "map_of respData ''latest_version'' = Some (JFloat64 v)"
  proof -
    from GetKeyInfo_version [OF that(1,2)] that(3) obtain info t' sent
      where "GetKeyInfo E (transit s) ?name = (Inr info, t', sent)"
        and "LatestVersion info = v" by auto
    then show ?thesis by (simp add: performHealthCheck_def Let_def formatKeyID_def)
  qed
  have failure: "healthy (performHealthCheck E s) = False \<and> keyID (performHealthCheck E s) = keyID s"
    if "fst (GetKeyInfo E (transit s) ?name) = Inl err"
    using that by (cases "GetKeyInfo E (transit s) ?name") (simp add: performHealthCheck_def)
  have v0: "healthy (performHealthCheck F r) = True \<and>
      keyID (performHealthCheck F r) = KeyName (Server.config r) @ '':v0'' \<and>
      Server.config (performHealthCheck F r) = Server.config r \<and>
      Client.config (transit (performHealthCheck F r)) = Client.config (transit r)"
    if "LogicalRead F (TransitMount (Client.config (transit r)) @ ''/keys/'' @
          KeyName (Server.config r)) = Inr (Some a)"
      "Secret.Data a = Some d" "map_of d ''latest_version'' = Some (JNumber n)" for F r a d n
  proof -
    from GetKeyInfo_version [OF that(1,2)] that(3) obtain info t' sent
      where g: "GetKeyInfo F (transit r) (KeyName (Server.config r)) = (Inr info, t', sent)"
        and l: "LatestVersion info = 0" by auto
    obtain e c' cs where rt: "RefreshToken F (transit r) = (e, c', cs)"
      by (cases "RefreshToken F (transit r)") auto
    from g rt have "t' = c'"
      by (auto simp: GetKeyInfo_def TransitGetKeyInfo_def Let_def split: sum.splits option.splits)
    with RefreshToken_config [OF rt] have "Client.config t' = Client.config (transit r)" by simp
    with g l show ?thesis
      by (simp add: performHealthCheck_def Let_def formatKeyID_def fmtInt_0)
  qed
  have differs: "KeyName (Server.config s) @ '':v0'' \<noteq> KeyName (Server.config s) @ '':v'' @ fmtInt (N + 1)"
    if "0 \<le> N"
  proof
    assume "KeyName (Server.config s) @ '':v0'' = KeyName (Server.config s) @ '':v'' @ fmtInt (N + 1)"
    then have "fmtInt 0 = fmtInt (N + 1)" by (simp add: fmtInt_0)
    from fmtInt_inj [OF this] that show False by simp
  qed
  show ?thesis
  proof (intro conjI impI)
    assume "fst (GetKeyInfo E (transit s) ?name) = Inl err"
    from failure [OF this] show "healthy (performHealthCheck E s) = False"
      and "keyID (performHealthCheck E s) = keyID s" by simp_all
  next
    assume h: "LogicalRead E ?path = Inr (Some resp) \<and> Secret.Data resp = Some respData \<and>
      map_of respData ''latest_version'' = Some (JNumber version)"
    then have first: "healthy (performHealthCheck E s) = True \<and>
      keyID (performHealthCheck E s) = ?name @ '':v0'' \<and>
      Server.config (performHealthCheck E s) = Server.config s \<and>
      Client.config (transit (performHealthCheck E s)) = Client.config (transit s)"
      using v0 [of E s resp respData version] by blast
    from first show "healthy (performHealthCheck E s) = True" by simp
    from first show "KeyId (Server_Status (performHealthCheck E s)) = ?name @ '':v0''"
      by (simp add: Server_Status_def)
    {
      assume "0 \<le> N"
      from differs [OF this] first
      show "KeyId (Server_Status (performHealthCheck E s)) \<noteq> ?name @ '':v'' @ fmtInt (N + 1)"
        by (simp add: Server_Status_def)
    }
    {
      assume h': "LogicalRead E' ?path = Inr (Some resp') \<and> Secret.Data resp' = Some respData' \<and>
        map_of respData' ''latest_version'' = Some (JNumber version')"
      with first have "keyID (performHealthCheck E' (performHealthCheck E s)) = ?name @ '':v0''"
        using v0 [of E' "performHealthCheck E s" resp' respData' version'] by simp
      with first
      show "KeyId (Server_Status (performHealthCheck E' (performHealthCheck E s))) =
        KeyId (Server_Status (performHealthCheck E s))"
        by (simp add: Server_Status_def)
    }
  next
    assume "LogicalRead E ?path = Inr (Some resp) \<and> Secret.Data resp = Some respData \<and>
      map_of respData ''latest_version'' = Some (JFloat64 v)"
    with float show "KeyId (Server_Status (performHealthCheck E s)) = ?name @ '':v'' @ fmtInt v"
      by (simp add: Server_Status_def)
  qed
qed

lemma fmtInt_2: "fmtInt 2 = ''2''"
  by code_simp

lemma exampleKmsEnv_read:
  "LogicalRead (exampleKmsEnv answer)
     (TransitMount (Client.config (transit exampleServer)) @ ''/keys/'' @
      KeyName (Server.config exampleServer)) = answer"
  by (simp add: exampleKmsEnv_def exampleServer_def exampleClient_def)

theorem performHealthCheck_keyID_stays_v0_witness:
  "fst (GetKeyInfo (exampleKmsEnv (Inl ''connection refused'')) (transit exampleServer)
          (KeyName (Server.config exampleServer))) =
     Inl ''failed to read key info: connection refused'' \<and>
   Healthz (Server_Status (performHealthCheck (exampleKmsEnv (Inl ''connection refused''))
      exampleServer)) = ''unhealthy'' \<and>
   map_of (the (Secret.Data (exampleKeyAnswer ''2''))) ''latest_version'' = Some (JNumber ''2'') \<and>
   Server_Status (performHealthCheck (exampleKmsEnv (Inr (Some (exampleKeyAnswer ''1''))))
      exampleServer) = \<lparr>StatusResponse.Version = ''v2'', Healthz = ''ok'', KeyId = ''kubebao-kms:v0''\<rparr> \<and>
   Server_Status (performHealthCheck (exampleKmsEnv (Inr (Some (exampleKeyAnswer ''2''))))
      (performHealthCheck (exampleKmsEnv (Inr (Some (exampleKeyAnswer ''1'')))) exampleServer)) =
     \<lparr>StatusResponse.Version = ''v2'', Healthz = ''ok'', KeyId = ''kubebao-kms:v0''\<rparr> \<and>
   KeyId (Server_Status (performHealthCheck (exampleKmsEnv (Inr (Some (exampleKeyAnswer ''2''))))
      exampleServer)) \<noteq> ''kubebao-kms:v2''"
proof -
  let ?down = "exampleKmsEnv (Inl ''connection refused'')"
  let ?one = "exampleKmsEnv (Inr (Some (exampleKeyAnswer ''1'')))"
  let ?two = "exampleKmsEnv (Inr (Some (exampleKeyAnswer ''2'')))"
  have name: "KeyName (Server.config exampleServer) = ''kubebao-kms''"
    by (simp add: exampleServer_def)
  have data: "Secret.Data (exampleKeyAnswer v) =
      Some [(''name'', JString ''kubebao-kms''), (''type'', JString ''aes256-gcm96''),
            (''latest_version'', JNumber v), (''exportable'', JBool False)]" for v
    by (simp add: exampleKeyAnswer_def)
  have lv: "map_of [(''name'', JString ''kubebao-kms''), (''type'', JString ''aes256-gcm96''),
            (''latest_version'', JNumber v), (''exportable'', JBool False)] ''latest_version'' =
      Some (JNumber v)" for v by simp
  have g: "fst (GetKeyInfo ?down (transit exampleServer) (KeyName (Server.config exampleServer))) =
      Inl ''failed to read key info: connection refused''"
  proof -
    obtain e c' cs where rt: "RefreshToken ?down (transit exampleServer) = (e, c', cs)"
      by (cases "RefreshToken ?down (transit exampleServer)") auto
    from RefreshToken_config [OF rt] exampleKmsEnv_read [of "Inl ''connection refused''"]
    show ?thesis
      by (simp add: GetKeyInfo_def TransitGetKeyInfo_def rt Let_def)
  qed
  note t = performHealthCheck_keyID_stays_v0 [where s = exampleServer]
  from t [where E = ?down and err = "''failed to read key info: connection refused''"] g
  have a: "Healthz (Server_Status (performHealthCheck ?down exampleServer)) = ''unhealthy''"
    by (simp add: Server_Status_def)
  from t [where E = ?one and resp = "exampleKeyAnswer ''1''" and version = "''1''"
      and E' = ?two and resp' = "exampleKeyAnswer ''2''" and version' = "''2''"
      and respData = "[(''name'', JString ''kubebao-kms''), (''type'', JString ''aes256-gcm96''), (''latest_version'', JNumber ''1''), (''exportable'', JBool False)]"
      and respData' = "[(''name'', JString ''kubebao-kms''), (''type'', JString ''aes256-gcm96''), (''latest_version'', JNumber ''2''), (''exportable'', JBool False)]"
      and N = 1]
    exampleKmsEnv_read data lv
  have b: "healthy (performHealthCheck ?one exampleServer) = True"
    "KeyId (Server_Status (performHealthCheck ?one exampleServer)) = ''kubebao-kms:v0''"
    "KeyId (Server_Status (performHealthCheck ?two (performHealthCheck ?one exampleServer))) =
       KeyId (Server_Status (performHealthCheck ?one exampleServer))"
    by (simp_all add: name)
  from t [where E = ?two and resp = "exampleKeyAnswer ''2''" and version = "''2''" and N = 1
      and respData = "[(''name'', JString ''kubebao-kms''), (''type'', JString ''aes256-gcm96''), (''latest_version'', JNumber ''2''), (''exportable'', JBool False)]"]
    exampleKmsEnv_read data lv
  have c: "KeyId (Server_Status (performHealthCheck ?two exampleServer)) \<noteq> ''kubebao-kms:v2''"
    by (simp add: name fmtInt_2)
  from b have b2: "Server_Status (performHealthCheck ?one exampleServer) =
      \<lparr>StatusResponse.Version = ''v2'', Healthz = ''ok'', KeyId = ''kubebao-kms:v0''\<rparr>"
    by (simp add: Server_Status_def APIVersion_def HealthStatusOK_def)
  have third: "LogicalRead ?two (TransitMount (Client.config (transit (performHealthCheck ?one
      exampleServer))) @ ''/keys/'' @ KeyName (Server.config (performHealthCheck ?one
      exampleServer))) = Inr (Some (exampleKeyAnswer ''2''))"
  proof -
    obtain e c' cs where rt: "RefreshToken ?one (transit exampleServer) = (e, c', cs)"
      by (cases "RefreshToken ?one (transit exampleServer)") auto
    from RefreshToken_config [OF rt] exampleKmsEnv_read [of "Inr (Some (exampleKeyAnswer ''1''))"]
      exampleKmsEnv_read [of "Inr (Some (exampleKeyAnswer ''2''))"]
    show ?thesis
      by (simp add: performHealthCheck_def GetKeyInfo_def TransitGetKeyInfo_def rt Let_def data)
  qed
  from performHealthCheck_keyID_stays_v0 [where E = ?two
      and s = "performHealthCheck ?one exampleServer"
      and resp = "exampleKeyAnswer ''2''" and version = "''2''"
      and respData = "[(''name'', JString ''kubebao-kms''), (''type'', JString ''aes256-gcm96''), (''latest_version'', JNumber ''2''), (''exportable'', JBool False)]"] third data lv
  have "healthy (performHealthCheck ?two (performHealthCheck ?one exampleServer)) = True"
    by simp
  with b have b3: "Server_Status (performHealthCheck ?two (performHealthCheck ?one exampleServer)) =
      \<lparr>StatusResponse.Version = ''v2'', Healthz = ''ok'', KeyId = ''kubebao-kms:v0''\<rparr>"
    by (simp add: Server_Status_def APIVersion_def HealthStatusOK_def)
  have d: "map_of (the (Secret.Data (exampleKeyAnswer ''2''))) ''latest_version'' =
      Some (JNumber ''2'')" by (simp add: data)
  show ?thesis
    apply (intro conjI)
         apply (rule g)
        apply (rule a)
       apply (rule d)
      apply (rule b2)
     apply (rule b3)
    apply (rule c)
    done
qed

section \<open>Backend client: token refresh\<close>

lemma Time_Sub_five_minutes: "(Time_Sub t u > 5 * Minute) = (t - u > 5 * Minute)"
  by (auto simp: Time_Sub_def sat64_def Minute_def Second_def max_def min_def)

text \<open>
  Claim C8. When no expiry is recorded (the zero instant) or more than 5 minutes remain,
  \<open>RefreshToken\<close> returns nil, leaves the client as it is and sends nothing. Otherwise its
  first request is the lease renewal; when the renewal answers with auth information, only
  the expiry changes (to the second reading of the clock plus the lease, whose number of
  nanoseconds is computed in \<open>int64\<close>) and nothing else is sent; when it does not (an error, a
  nil secret or a secret without auth information), the call continues with \<open>authenticate\<close>
  and returns its result.
\<close>

theorem RefreshToken_cases:
  "(Client.tokenExpiry c = 0 \<or> Client.tokenExpiry c - Clock E 0 > 5 * Minute \<longrightarrow>
      RefreshToken E c = (None, c, [])) \<and>
   (Client.tokenExpiry c \<noteq> 0 \<and> Client.tokenExpiry c - Clock E 0 \<le> 5 * Minute \<longrightarrow>
      (\<exists>rest. snd (snd (RefreshToken E c)) = CallRenewSelf # rest) \<and>
      (RenewSelf E = Inr (Some renewed) \<and> Auth renewed = Some auth \<longrightarrow>
         RefreshToken E c =
           (None, c\<lparr>Client.tokenExpiry := Clock E 1 + wrap64 (LeaseDuration auth * Second)\<rparr>,
            [CallRenewSelf])) \<and>
      ((\<forall>renewed auth. \<not> (RenewSelf E = Inr (Some renewed) \<and> Auth renewed = Some auth)) \<longrightarrow>
         RefreshToken E c =
           (fst (authenticate E (Clock E 1) c), fst (snd (authenticate E (Clock E 1) c)),
            CallRenewSelf # snd (snd (authenticate E (Clock E 1) c)))))"
  by (auto simp: RefreshToken_def Let_def Time_Sub_five_minutes DurationSeconds_def
      split: sum.splits option.splits prod.splits)

lemma exampleBackendEnv_sel:
  "RenewSelf (exampleBackendEnv renew) = renew"
  "Clock (exampleBackendEnv renew) k = 900 * Second + int k"
  "ReadFile (exampleBackendEnv renew) path = Inr ''jwt''"
  "Login (exampleBackendEnv renew) path role jwt =
     Inr (Some \<lparr>RequestID = ''4f1c'', Secret.Data = None,
                 Auth = Some \<lparr>ClientToken = ''s.new'', LeaseDuration = 3600\<rparr>\<rparr>)"
  by (simp_all add: exampleBackendEnv_def)

lemma wrap64_examples:
  "wrap64 (1800 * Second) = 1800 * Second"
  "wrap64 (3600 * Second) = 3600 * Second"
  "wrap64 (10000000000 * Second) = - 8446744073709551616"
  by (simp_all add: wrap64_def Second_def)

theorem RefreshToken_cases_witness:
  "Client.tokenExpiry (exampleClient\<lparr>Client.tokenExpiry := 0\<rparr>) = 0 \<and>
   RefreshToken (exampleBackendEnv (Inl ''connection refused'')) (exampleClient\<lparr>Client.tokenExpiry := 0\<rparr>)
     = (None, exampleClient\<lparr>Client.tokenExpiry := 0\<rparr>, []) \<and>
   Client.tokenExpiry exampleClient \<noteq> 0 \<and>
   Client.tokenExpiry exampleClient - Clock (exampleBackendEnv (Inr (Some exampleRenewed))) 0 \<le> 5 * Minute \<and>
   RefreshToken (exampleBackendEnv (Inr (Some exampleRenewed))) exampleClient
     = (None, exampleClient\<lparr>Client.tokenExpiry := 900 * Second + 1 + 1800 * Second\<rparr>, [CallRenewSelf]) \<and>
   RefreshToken (exampleBackendEnv (Inr (Some longRenewed))) exampleClient
     = (None, exampleClient\<lparr>Client.tokenExpiry := 900 * Second + 1 - 8446744073709551616\<rparr>,
        [CallRenewSelf]) \<and>
   RefreshToken (exampleBackendEnv (Inl ''connection refused'')) exampleClient
     = (None, exampleClient\<lparr>Client.token := ''s.new'', Client.tokenExpiry := 900 * Second + 1 + 3600 * Second\<rparr>,
        [CallRenewSelf, CallLogin ''auth/kubernetes/login''])"
proof -
  let ?down = "exampleBackendEnv (Inl ''connection refused'')"
  let ?up = "exampleBackendEnv (Inr (Some exampleRenewed))"
  let ?long = "exampleBackendEnv (Inr (Some longRenewed))"
  have z: "Client.tokenExpiry (exampleClient\<lparr>Client.tokenExpiry := 0\<rparr>) = 0" by simp
  have near: "Client.tokenExpiry exampleClient \<noteq> 0"
    "Client.tokenExpiry exampleClient - Clock E 0 \<le> 5 * Minute"
    if "Clock E 0 = 900 * Second" for E
    using that by (simp_all add: exampleClient_def Second_def Minute_def)
  have cu: "Clock ?up 0 = 900 * Second" and cd: "Clock ?down 0 = 900 * Second"
    and cl: "Clock ?long 0 = 900 * Second"
    by (simp_all add: exampleBackendEnv_sel)
  have a: "RefreshToken ?down (exampleClient\<lparr>Client.tokenExpiry := 0\<rparr>)
      = (None, exampleClient\<lparr>Client.tokenExpiry := 0\<rparr>, [])"
    using RefreshToken_cases [of "exampleClient\<lparr>Client.tokenExpiry := 0\<rparr>" ?down] z by blast
  have "RenewSelf ?up = Inr (Some exampleRenewed) \<and>
      Auth exampleRenewed = Some \<lparr>ClientToken = ''s.old'', LeaseDuration = 1800\<rparr>"
    by (simp add: exampleBackendEnv_sel exampleRenewed_def)
  with RefreshToken_cases [of exampleClient ?up exampleRenewed
      "\<lparr>ClientToken = ''s.old'', LeaseDuration = 1800\<rparr>"] near [OF cu]
  have b: "RefreshToken ?up exampleClient =
      (None, exampleClient\<lparr>Client.tokenExpiry := 900 * Second + 1 + 1800 * Second\<rparr>, [CallRenewSelf])"
    by (simp add: exampleBackendEnv_sel wrap64_examples)
  have "RenewSelf ?long = Inr (Some longRenewed) \<and>
      Auth longRenewed = Some \<lparr>ClientToken = ''s.old'', LeaseDuration = 10000000000\<rparr>"
    by (simp add: exampleBackendEnv_sel longRenewed_def)
  with RefreshToken_cases [of exampleClient ?long longRenewed
      "\<lparr>ClientToken = ''s.old'', LeaseDuration = 10000000000\<rparr>"] near [OF cl]
  have b': "RefreshToken ?long exampleClient =
      (None, exampleClient\<lparr>Client.tokenExpiry := 900 * Second + 1 - 8446744073709551616\<rparr>,
       [CallRenewSelf])"
    by (simp add: exampleBackendEnv_sel wrap64_examples)
  have "\<forall>renewed auth. \<not> (RenewSelf ?down = Inr (Some renewed) \<and> Auth renewed = Some auth)"
    by (simp add: exampleBackendEnv_sel)
  with RefreshToken_cases [of exampleClient ?down] near [OF cd]
  have "RefreshToken ?down exampleClient =
      (fst (authenticate ?down (Clock ?down 1) exampleClient),
       fst (snd (authenticate ?down (Clock ?down 1) exampleClient)),
       CallRenewSelf # snd (snd (authenticate ?down (Clock ?down 1) exampleClient)))"
    by blast
  moreover have "authenticate ?down (Clock ?down 1) exampleClient =
      (None, exampleClient\<lparr>Client.token := ''s.new'', Client.tokenExpiry := 900 * Second + 1 + 3600 * Second\<rparr>,
       [CallLogin ''auth/kubernetes/login''])"
    by (simp add: authenticate_def authenticateKubernetes_def exampleBackendEnv_sel
        exampleClient_def Let_def DurationSeconds_def wrap64_examples)
  ultimately have c: "RefreshToken ?down exampleClient =
      (None, exampleClient\<lparr>Client.token := ''s.new'', Client.tokenExpiry := 900 * Second + 1 + 3600 * Second\<rparr>,
       [CallRenewSelf, CallLogin ''auth/kubernetes/login''])"
    by simp
  from z a near [OF cu] b b' c show ?thesis by simp
qed

section \<open>Injection provider: cache\<close>







section \<open>Injection provider: the version of a dynamic secret\<close>

text \<open>
  Claim C9, amended. For a dynamic-secret fetch (non-empty \<open>SecretArgs\<close>) whose write returns
  a non-nil response with non-nil \<open>Data\<close>: when the request id has at least 8 bytes, the
  version is its first 8 bytes (returned with the content, unless \<open>extractContent\<close> fails);
  when it has fewer, \<open>readFromOpenBao\<close> panics, for there is no guard or default. The read
  branch never panics and gives the version \<open>1\<close> when the response reports none. A non-nil
  response to the write whose \<open>Data\<close> is nil gives the error \<open>no data returned from path\<close> and
  no version.
\<close>

theorem readFromOpenBao_dynamic_version:
  "(length (SecretArgs obj) > 0 \<and>
    clientWrite E client (backendPath (SecretObject.SecretPath obj))
      (map (\<lambda>(k, v). (k, JString v)) (SecretArgs obj)) = Inr (Some resp) \<and>
    Secret.Data resp = Some respData \<longrightarrow>
      (length (RequestID resp) \<ge> 8 \<longrightarrow>
         fst (readFromOpenBao E client obj) =
           (case extractContent E (JObject respData) obj of
              Inl err \<Rightarrow> Inl (Err err)
            | Inr content \<Rightarrow> Inr (content, take 8 (RequestID resp)))) \<and>
      (length (RequestID resp) < 8 \<longrightarrow>
         fst (readFromOpenBao E client obj) = Inl (Panic ''slice bounds out of range''))) \<and>
   (length (SecretArgs obj) = 0 \<longrightarrow>
      fst (readFromOpenBao E client obj) \<noteq> Inl (Panic msg) \<and>
      (clientRead E client (backendPath (SecretObject.SecretPath obj)) = Inr (Some resp) \<and>
       Secret.Data resp = Some respData \<and> map_of respData ''data'' = Some found \<and>
       metadataVersion respData = [] \<longrightarrow>
         fst (readFromOpenBao E client obj) =
           (case extractContent E found obj of
              Inl err \<Rightarrow> Inl (Err err)
            | Inr content \<Rightarrow> Inr (content, ''1'')))) \<and>
   (length (SecretArgs obj) > 0 \<and>
    clientWrite E client (backendPath (SecretObject.SecretPath obj))
      (map (\<lambda>(k, v). (k, JString v)) (SecretArgs obj)) = Inr (Some resp) \<and>
    Secret.Data resp = None \<longrightarrow>
      fst (readFromOpenBao E client obj) =
        Inl (Err (''no data returned from path: '' @ backendPath (SecretObject.SecretPath obj))))"
  by (auto simp: readFromOpenBao_def Let_def split: sum.splits option.splits prod.splits)

section \<open>Injection provider: the error codes of Mount\<close>

lemma FetchSecrets_loop_panic:
  "firstPanic (fetchEach E client st objects) = Some msg \<Longrightarrow>
   fst (FetchSecrets_loop E client st objects secrets fetchErrors) = Inl msg"
proof (induction objects arbitrary: st secrets fetchErrors)
  case Nil
  then show ?case by simp
next
  case (Cons obj objects)
  obtain r st' where f: "fetchSecret E client st obj = (r, st')" by (cases "fetchSecret E client st obj")
  show ?case
  proof (cases r)
    case (Inr fetched)
    with Cons.prems f have "firstPanic (fetchEach E client st' objects) = Some msg" by simp
    from Cons.IH [OF this] Inr f show ?thesis by simp
  next
    case (Inl e)
    show ?thesis
    proof (cases e)
      case (Err err)
      with Inl Cons.prems f have "firstPanic (fetchEach E client st' objects) = Some msg" by simp
      from Cons.IH [OF this] Inl Err f show ?thesis by simp
    next
      case (Panic m)
      with Inl Cons.prems f show ?thesis by simp
    qed
  qed
qed

text \<open>
  Claim C3. \<open>Mount\<close> returns a response with a nil Go error, and the code
  \<open>InvalidArgument\<close> when the attributes are not decodable or not valid,
  \<open>PermissionDenied\<close> when the attributes are valid and authentication fails, and
  \<open>Internal\<close> when both succeed and \<open>FetchSecrets\<close> returns an error. But when a fetch
  panics (the backend answers the write of a dynamic secret with a request id of fewer than
  8 bytes), \<open>Mount\<close> returns no response at all: the panic leaves it.
\<close>

theorem Mount_error_codes_and_panic:
  "(snd (decodeAttributes E req) \<noteq> None \<or>
    parseMountParams E cfg (fst (decodeAttributes E req)) = Inl err \<longrightarrow>
      Mount E cfg st req = (Inr (errorResponse ''InvalidArgument''), st)) \<and>
   (snd (decodeAttributes E req) = None \<and>
    parseMountParams E cfg (fst (decodeAttributes E req)) = Inr params \<longrightarrow>
      (Provider_authenticate E cfg params (decodeSecrets E req) = Inl err \<longrightarrow>
         Mount E cfg st req = (Inr (errorResponse ''PermissionDenied''), st)) \<and>
      (Provider_authenticate E cfg params (decodeSecrets E req) = Inr authClient \<and>
       FetchSecrets E authClient st (Objects params) = (Inr (fetched, Some err), st') \<longrightarrow>
         Mount E cfg st req = (Inr (errorResponse ''Internal''), st')) \<and>
      (Provider_authenticate E cfg params (decodeSecrets E req) = Inr authClient \<and>
       firstPanic (fetchEach E authClient st (Objects params)) = Some msg \<longrightarrow>
         fst (Mount E cfg st req) = Inl msg))"
proof -
  have panic: "fst (Mount E cfg st req) = Inl msg"
    if "snd (decodeAttributes E req) = None"
      "parseMountParams E cfg (fst (decodeAttributes E req)) = Inr params"
      "Provider_authenticate E cfg params (decodeSecrets E req) = Inr authClient"
      "firstPanic (fetchEach E authClient st (Objects params)) = Some msg"
  proof -
    obtain r st'' where loop: "FetchSecrets_loop E authClient st (Objects params) [] [] = (r, st'')"
      by (cases "FetchSecrets_loop E authClient st (Objects params) [] []")
    with FetchSecrets_loop_panic [OF that(4), of "[]" "[]"] have "r = Inl msg" by simp
    with loop have "FetchSecrets E authClient st (Objects params) = (Inl msg, st'')"
      by (simp add: FetchSecrets_def)
    with that(1-3) show ?thesis by (simp add: Mount_def)
  qed
  have rest: "(snd (decodeAttributes E req) \<noteq> None \<or>
    parseMountParams E cfg (fst (decodeAttributes E req)) = Inl err \<longrightarrow>
      Mount E cfg st req = (Inr (errorResponse ''InvalidArgument''), st)) \<and>
   (snd (decodeAttributes E req) = None \<and>
    parseMountParams E cfg (fst (decodeAttributes E req)) = Inr params \<longrightarrow>
      (Provider_authenticate E cfg params (decodeSecrets E req) = Inl err \<longrightarrow>
         Mount E cfg st req = (Inr (errorResponse ''PermissionDenied''), st)) \<and>
      (Provider_authenticate E cfg params (decodeSecrets E req) = Inr authClient \<and>
       FetchSecrets E authClient st (Objects params) = (Inr (fetched, Some err), st') \<longrightarrow>
         Mount E cfg st req = (Inr (errorResponse ''Internal''), st')))"
    by (auto simp: Mount_def)
  from rest panic show ?thesis by blast
qed

section \<open>Injection provider: partial results\<close>

lemma FetchSecrets_loop_outcomes:
  "panicFree (fetchEach E client st objects) \<Longrightarrow>
   fst (FetchSecrets_loop E client st objects secrets fetchErrors) =
     Inr (secrets @ fetchedOf (fetchEach E client st objects),
          fetchErrors @ errorLinesOf (fetchEach E client st objects))"
proof (induction objects arbitrary: st secrets fetchErrors)
  case Nil
  then show ?case by simp
next
  case (Cons obj objects)
  obtain r st' where f: "fetchSecret E client st obj = (r, st')" by (cases "fetchSecret E client st obj")
  from Cons.prems f have tail: "panicFree (fetchEach E client st' objects)"
    by (simp add: panicFree_def)
  show ?case
  proof (cases r)
    case (Inr fetched)
    with Cons.IH [OF tail] f show ?thesis by simp
  next
    case (Inl e)
    show ?thesis
    proof (cases e)
      case (Err err)
      with Inl Cons.IH [OF tail] f show ?thesis by simp
    next
      case (Panic msg)
      with Inl Cons.prems f show ?thesis by (simp add: panicFree_def)
    qed
  qed
qed

lemma sublist_concat_line:
  assumes "line \<in> set lines"
  shows "sublist line (header @ concat (map (\<lambda>err. sep @ bullet @ err) lines))"
proof -
  from assms obtain as bs where "lines = as @ line # bs" by (auto dest: split_list)
  then have "header @ concat (map (\<lambda>err. sep @ bullet @ err) lines) =
      (header @ concat (map (\<lambda>err. sep @ bullet @ err) as) @ sep @ bullet) @ line @
      concat (map (\<lambda>err. sep @ bullet @ err) bs)" by simp
  then show ?thesis unfolding sublist_def by blast
qed

lemma errorLinesOf_member:
  "(obj, Inl (Err err)) \<in> set outcomes \<Longrightarrow>
   (''failed to fetch '' @ SecretObject.ObjectName obj @ '': '' @ err) \<in> set (errorLinesOf outcomes)"
  by (induction outcomes rule: errorLinesOf.induct) auto

text \<open>
  Claim C1, amended. As long as no fetch panics, \<open>FetchSecrets\<close> fetches every object
  whatever happened to the ones before, and returns the secrets fetched (name, contents,
  version, mode), in the order of the request, together with an aggregate error that is
  non-nil as soon as one fetch failed and whose message names every failing object.
  \<open>Mount\<close> does not pass partial results on: when a fetch fails, its response carries the
  error code \<open>Internal\<close> and neither files nor object versions.
\<close>

theorem FetchSecrets_partial_results:
  assumes "panicFree (fetchEach E client st objects)"
  shows "(\<exists>aggregate. fst (FetchSecrets E client st objects) =
            Inr (fetchedOf (fetchEach E client st objects), aggregate) \<and>
            (\<forall>obj err. (obj, Inl (Err err)) \<in> set (fetchEach E client st objects) \<longrightarrow>
               (\<exists>msg. aggregate = Some msg \<and>
                  sublist (''failed to fetch '' @ SecretObject.ObjectName obj @ '': '' @ err) msg))) \<and>
         (snd (decodeAttributes E req) = None \<and>
          parseMountParams E cfg (fst (decodeAttributes E req)) = Inr params \<and>
          Provider_authenticate E cfg params (decodeSecrets E req) = Inr client \<and>
          Objects params = objects \<and>
          (obj, Inl (Err err)) \<in> set (fetchEach E client st objects) \<longrightarrow>
            fst (Mount E cfg st req) = Inr (errorResponse ''Internal''))"
proof -
  let ?outcomes = "fetchEach E client st objects"
  let ?lines = "errorLinesOf ?outcomes"
  let ?msg = "''some secrets failed to fetch:'' @ concat (map (\<lambda>err. newline @ ''  - '' @ err) ?lines)"
  obtain r st' where loop: "FetchSecrets_loop E client st objects [] [] = (r, st')"
    by (cases "FetchSecrets_loop E client st objects [] []")
  with FetchSecrets_loop_outcomes [OF assms, of "[]" "[]"]
  have r: "r = Inr (fetchedOf ?outcomes, ?lines)" by simp
  have F: "FetchSecrets E client st objects =
      (Inr (fetchedOf ?outcomes, if length ?lines > 0 then Some ?msg else None), st')"
    by (simp add: FetchSecrets_def loop r)
  have named: "\<exists>msg. (if length ?lines > 0 then Some ?msg else None) = Some msg \<and>
      sublist (''failed to fetch '' @ SecretObject.ObjectName obj @ '': '' @ err) msg"
    if "(obj, Inl (Err err)) \<in> set ?outcomes" for obj err
  proof -
    from errorLinesOf_member [OF that]
    have m: "(''failed to fetch '' @ SecretObject.ObjectName obj @ '': '' @ err) \<in> set ?lines" .
    then have pos: "length ?lines > 0" by (cases ?lines) auto
    have s: "sublist (''failed to fetch '' @ SecretObject.ObjectName obj @ '': '' @ err) ?msg"
      by (rule sublist_concat_line [OF m])
    from pos have "(if length ?lines > 0 then Some ?msg else None) = Some ?msg"
      by (simp only: if_True)
    with s show ?thesis by blast
  qed
  have mount: "fst (Mount E cfg st req) = Inr (errorResponse ''Internal'')"
    if "snd (decodeAttributes E req) = None"
      "parseMountParams E cfg (fst (decodeAttributes E req)) = Inr params"
      "Provider_authenticate E cfg params (decodeSecrets E req) = Inr client"
      "Objects params = objects"
      "(obj, Inl (Err err)) \<in> set ?outcomes"
  proof -
    from named [OF that(5)] have "length ?lines > 0" by (auto split: if_splits)
    with F that(1-4) show ?thesis by (simp add: Mount_def)
  qed
  from F named mount show ?thesis by auto
qed

section \<open>Injection provider: a request for three objects, one of them absent\<close>

text \<open>
  The example backend holds the objects \<open>db\<close> and \<open>api\<close>; nothing is stored at the path of
  \<open>missing\<close>. The lemmas below evaluate the provider on it.
\<close>

lemma exampleCsiEnv_sel:
  "timeNow (exampleCsiEnv clock written) = clock"
  "clientWrite (exampleCsiEnv clock written) client path data = written"
  "clientRead (exampleCsiEnv clock written) client ''secret/data/myapp/database'' =
     Inr (Some \<lparr>RequestID = ''0f3a9c2e-77aa'',
                 Secret.Data = Some
                   [(''data'', JObject [(''username'', JString ''dbuser''),
                                        (''password'', JString ''dbpass123'')]),
                    (''metadata'', JObject [(''version'', JNumber ''3'')])],
                 Auth = None\<rparr>)"
  "clientRead (exampleCsiEnv clock written) client ''secret/data/myapp/api'' =
     Inr (Some \<lparr>RequestID = ''5b7d'',
                 Secret.Data = Some [(''data'', JObject [(''key'', JString ''k-123'')])],
                 Auth = None\<rparr>)"
  "clientRead (exampleCsiEnv clock written) client ''secret/data/none'' = Inr None"
  "fmtValue (exampleCsiEnv clock written) = exampleSprintv"
  "sscanOctal (exampleCsiEnv clock written) ''400'' = 256"
  by (simp_all add: exampleCsiEnv_def)

lemma example_paths:
  "backendPath (SecretObject.SecretPath dbObject) = ''secret/data/myapp/database''"
  "backendPath (SecretObject.SecretPath missingObject) = ''secret/data/none''"
  "backendPath (SecretObject.SecretPath apiObject) = ''secret/data/myapp/api''"
  "backendPath (SecretObject.SecretPath dynamicObject) = ''secret/data/creds/app''"
  by (simp_all add: backendPath_def dbObject_def missingObject_def apiObject_def
      dynamicObject_def strings_SplitN2_def Let_def)

lemma example_read_db:
  "readFromOpenBao (exampleCsiEnv clock written) client dbObject =
     (Inr (''dbpass123'', ''3''), [CallRead ''secret/data/myapp/database''])"
  unfolding readFromOpenBao_def Let_def example_paths
  by (simp add: exampleCsiEnv_sel dbObject_def extractContent_def metadataVersion_def
      exampleSprintv_def)

lemma example_read_api:
  "readFromOpenBao (exampleCsiEnv clock written) client apiObject =
     (Inr (''k-123'', ''1''), [CallRead ''secret/data/myapp/api''])"
  unfolding readFromOpenBao_def Let_def example_paths
  by (simp add: exampleCsiEnv_sel apiObject_def extractContent_def metadataVersion_def
      exampleSprintv_def)

lemma example_read_missing:
  "readFromOpenBao (exampleCsiEnv clock written) client missingObject =
     (Inl (Err ''no data found at path: secret/data/none''), [CallRead ''secret/data/none''])"
  unfolding readFromOpenBao_def Let_def example_paths
  by (simp add: exampleCsiEnv_sel missingObject_def)

lemma example_keys:
  "cacheKey dbObject = ''secret/data/myapp/database:password:db-password''"
  "cacheKey missingObject = ''secret/data/none::missing''"
  "cacheKey apiObject = ''myapp/api:key:api-key''"
  by (simp_all add: cacheKey_def dbObject_def missingObject_def apiObject_def)

lemma example_modes:
  "parseFilePermission (exampleCsiEnv clock written) (FilePermission dbObject) = 256"
  "parseFilePermission (exampleCsiEnv clock written) (FilePermission apiObject) = 420"
  by (simp_all add: parseFilePermission_def dbObject_def apiObject_def strings_TrimPrefix0_def
      exampleCsiEnv_sel)

lemma example_names:
  "SecretObject.ObjectName dbObject = ''db-password''"
  "SecretObject.ObjectName missingObject = ''missing''"
  "SecretObject.ObjectName apiObject = ''api-key''"
  by (simp_all add: dbObject_def missingObject_def apiObject_def)

lemma example_fetch_db:
  assumes "cache_get (cache st) (cacheKey dbObject) (clock (reads st)) = None"
  shows "\<exists>st'. fetchSecret (exampleCsiEnv clock written) client st dbObject = (Inr dbFetched, st') \<and>
     cache st' = cache_set (cache st) (cacheKey dbObject) dbFetched (clock (reads st + 1)) \<and>
     reads st' = reads st + 2 \<and>
     calls st' = calls st @ [CallRead ''secret/data/myapp/database'']"
  using assms unfolding fetchSecret_def Let_def
  by (simp add: exampleCsiEnv_sel example_read_db example_modes dbFetched_def example_names)

lemma example_fetch_api:
  assumes "cache_get (cache st) (cacheKey apiObject) (clock (reads st)) = None"
  shows "\<exists>st'. fetchSecret (exampleCsiEnv clock written) client st apiObject = (Inr apiFetched, st') \<and>
     cache st' = cache_set (cache st) (cacheKey apiObject) apiFetched (clock (reads st + 1)) \<and>
     reads st' = reads st + 2 \<and>
     calls st' = calls st @ [CallRead ''secret/data/myapp/api'']"
  using assms unfolding fetchSecret_def Let_def
  by (simp add: exampleCsiEnv_sel example_read_api example_modes apiFetched_def example_names)

lemma example_fetch_missing:
  assumes "cache_get (cache st) (cacheKey missingObject) (clock (reads st)) = None"
  shows "\<exists>st'. fetchSecret (exampleCsiEnv clock written) client st missingObject =
       (Inl (Err ''no data found at path: secret/data/none''), st') \<and>
     cache st' = cache st \<and> reads st' = reads st + 1 \<and>
     calls st' = calls st @ [CallRead ''secret/data/none'']"
  using assms unfolding fetchSecret_def Let_def
  by (simp add: exampleCsiEnv_sel example_read_missing)

lemma example_outcomes:
  "fetchEach (exampleCsiEnv clock written) client emptyFetcher [dbObject, missingObject, apiObject] =
     [(dbObject, Inr dbFetched),
      (missingObject, Inl (Err ''no data found at path: secret/data/none'')),
      (apiObject, Inr apiFetched)]"
proof -
  let ?E = "exampleCsiEnv clock written"
  have m0: "cache_get (cache emptyFetcher) (cacheKey dbObject) (clock (reads emptyFetcher)) = None"
    by (simp add: cache_get_def emptyFetcher_def)
  from example_fetch_db [where st = emptyFetcher and clock = clock and written = written
      and client = client, OF m0] obtain st1
    where f0: "fetchSecret ?E client emptyFetcher dbObject = (Inr dbFetched, st1)"
      and c1: "cache st1 = cache_set (cache emptyFetcher) (cacheKey dbObject) dbFetched
                 (clock (reads emptyFetcher + 1))"
    by blast
  have m1: "cache_get (cache st1) (cacheKey missingObject) (clock (reads st1)) = None"
    by (simp add: c1 cache_get_def cache_set_def emptyFetcher_def example_keys)
  from example_fetch_missing [where st = st1 and clock = clock and written = written
      and client = client, OF m1] obtain st2
    where f1: "fetchSecret ?E client st1 missingObject =
        (Inl (Err ''no data found at path: secret/data/none''), st2)"
      and c2: "cache st2 = cache st1"
    by blast
  have m2: "cache_get (cache st2) (cacheKey apiObject) (clock (reads st2)) = None"
    by (simp add: c2 c1 cache_get_def cache_set_def emptyFetcher_def example_keys)
  from example_fetch_api [where st = st2 and clock = clock and written = written
      and client = client, OF m2] obtain st3
    where f2: "fetchSecret ?E client st2 apiObject = (Inr apiFetched, st3)"
    by blast
  show ?thesis by (simp add: f0 f1 f2)
qed

lemma example_decode:
  "decodeAttributes (exampleCsiEnv clock written) exampleRequest =
     (Some [(''roleName'', ''app''), (''objects'', ''[objects]'')], None)"
  "decodeSecrets (exampleCsiEnv clock written) exampleRequest =
     Some [(''csi.storage.k8s.io/serviceAccount.tokens'', ''jwt'')]"
  by (simp_all add: decodeAttributes_def decodeSecrets_def exampleRequest_def exampleCsiEnv_def)

lemma example_params:
  "parseMountParams (exampleCsiEnv clock written) exampleProviderConfig
     (Some [(''roleName'', ''app''), (''objects'', ''[objects]'')]) = Inr exampleParams"
  by (simp add: parseMountParams_def exampleCsiEnv_def exampleProviderConfig_def attribOr_def
      exampleParams_def Let_def)

lemma example_auth:
  "Provider_authenticate (exampleCsiEnv clock written) exampleProviderConfig exampleParams
     (Some [(''csi.storage.k8s.io/serviceAccount.tokens'', ''jwt'')]) = Inr exampleAuthClient"
  by (simp add: Provider_authenticate_def NewAuthenticatedClient_def
      AuthenticatedClient_authenticate_def AuthenticatedClient_authenticateKubernetes_def
      loginResult_def exampleCsiEnv_def exampleProviderConfig_def exampleParams_def
      exampleAuthClient_def Let_def DurationSeconds_def wrap64_def Second_def)

lemma example_objects: "Objects exampleParams = [dbObject, missingObject, apiObject]"
  by (simp add: exampleParams_def)

lemma example_panicFree:
  "panicFree (fetchEach (exampleCsiEnv clock written) client emptyFetcher
     [dbObject, missingObject, apiObject])"
  unfolding example_outcomes by (simp add: panicFree_def)

text \<open>
  The amended claim C1 on the request for \<open>db\<close>, \<open>missing\<close> and \<open>api\<close>.
\<close>

theorem FetchSecrets_partial_results_witness:
  "panicFree (fetchEach (exampleCsiEnv exampleClock (Inr None)) exampleAuthClient emptyFetcher
     [dbObject, missingObject, apiObject]) \<and>
   fst (FetchSecrets (exampleCsiEnv exampleClock (Inr None)) exampleAuthClient emptyFetcher
     [dbObject, missingObject, apiObject]) =
     Inr ([dbFetched, apiFetched],
          Some (''some secrets failed to fetch:'' @ newline @
                ''  - failed to fetch missing: no data found at path: secret/data/none'')) \<and>
   fst (Mount (exampleCsiEnv exampleClock (Inr None)) exampleProviderConfig emptyFetcher
     exampleRequest) = Inr (errorResponse ''Internal'')"
proof -
  let ?E = "exampleCsiEnv exampleClock (Inr None)"
  let ?objects = "[dbObject, missingObject, apiObject]"
  note pf = example_panicFree [of exampleClock "Inr None" exampleAuthClient]
  note t = FetchSecrets_partial_results [OF pf, where cfg = exampleProviderConfig
      and req = exampleRequest and params = exampleParams and obj = missingObject
      and err = "''no data found at path: secret/data/none''"]
  have mem: "(missingObject, Inl (Err ''no data found at path: secret/data/none''))
      \<in> set (fetchEach ?E exampleAuthClient emptyFetcher ?objects)"
    unfolding example_outcomes by simp
  from t mem have mount: "fst (Mount ?E exampleProviderConfig emptyFetcher exampleRequest) =
      Inr (errorResponse ''Internal'')"
    by (simp add: example_decode example_params example_auth example_objects
        del: fetchEach.simps)
  have "fst (FetchSecrets ?E exampleAuthClient emptyFetcher ?objects) =
     Inr ([dbFetched, apiFetched],
          Some (''some secrets failed to fetch:'' @ newline @
                ''  - failed to fetch missing: no data found at path: secret/data/none''))"
  proof -
    obtain r st' where loop: "FetchSecrets_loop ?E exampleAuthClient emptyFetcher ?objects [] [] = (r, st')"
      by (cases "FetchSecrets_loop ?E exampleAuthClient emptyFetcher ?objects [] []")
    with FetchSecrets_loop_outcomes [OF pf, of "[]" "[]"]
    have "r = Inr ([dbFetched, apiFetched],
        [''failed to fetch missing: no data found at path: secret/data/none''])"
      unfolding example_outcomes by (simp add: example_names del: FetchSecrets_loop.simps)
    with loop show ?thesis by (simp add: FetchSecrets_def del: FetchSecrets_loop.simps)
  qed
  with pf mount show ?thesis by simp
qed

text \<open>
  Claim C1 as first stated fails on this request: two of the three objects are fetched, yet
  the response of \<open>Mount\<close> has no file and no object version, only the code \<open>Internal\<close>.
\<close>

theorem Mount_partial_results_counterexample:
  "fetchedOf (fetchEach (exampleCsiEnv exampleClock (Inr None)) exampleAuthClient emptyFetcher
     [dbObject, missingObject, apiObject]) = [dbFetched, apiFetched] \<and>
   fst (Mount (exampleCsiEnv exampleClock (Inr None)) exampleProviderConfig emptyFetcher
     exampleRequest) =
     Inr \<lparr>ObjectVersion = [], Error = Some \<lparr>Code = ''Internal''\<rparr>, Files = []\<rparr>"
proof -
  let ?E = "exampleCsiEnv exampleClock (Inr None)"
  have "fst (FetchSecrets_loop ?E exampleAuthClient emptyFetcher
      [dbObject, missingObject, apiObject] [] []) =
      Inr ([dbFetched, apiFetched],
        [''failed to fetch missing: no data found at path: secret/data/none''])"
    using FetchSecrets_loop_outcomes [OF example_panicFree, of exampleClock "Inr None"
        exampleAuthClient "[]" "[]"]
    unfolding example_outcomes by (simp add: example_names del: FetchSecrets_loop.simps)
  then have "\<exists>msg st'. FetchSecrets ?E exampleAuthClient emptyFetcher
      [dbObject, missingObject, apiObject] = (Inr ([dbFetched, apiFetched], Some msg), st')"
    by (cases "FetchSecrets_loop ?E exampleAuthClient emptyFetcher
      [dbObject, missingObject, apiObject] [] []")
      (simp add: FetchSecrets_def del: FetchSecrets_loop.simps)
  then obtain msg st' where "FetchSecrets ?E exampleAuthClient emptyFetcher
      [dbObject, missingObject, apiObject] = (Inr ([dbFetched, apiFetched], Some msg), st')"
    by blast
  then have "fst (Mount ?E exampleProviderConfig emptyFetcher exampleRequest) =
      Inr (errorResponse ''Internal'')"
    by (simp add: Mount_def example_decode example_params example_auth example_objects)
  then show ?thesis unfolding example_outcomes by (simp add: errorResponse_def)
qed

lemma extractContent_yaml:
  "extractContent (E\<lparr>yamlUnmarshalObjects := f\<rparr>) found obj = extractContent E found obj"
  by (simp add: extractContent_def cong: jvalue.case_cong option.case_cong sum.case_cong if_cong)

lemma readFromOpenBao_yaml:
  "readFromOpenBao (E\<lparr>yamlUnmarshalObjects := f\<rparr>) client obj = readFromOpenBao E client obj"
  by (simp add: readFromOpenBao_def extractContent_yaml Let_def
      cong: option.case_cong sum.case_cong if_cong prod.case_cong)

lemma parseFilePermission_yaml:
  "parseFilePermission (E\<lparr>yamlUnmarshalObjects := f\<rparr>) perm = parseFilePermission E perm"
  by (simp add: parseFilePermission_def)

lemma fetchSecret_yaml:
  "fetchSecret (E\<lparr>yamlUnmarshalObjects := f\<rparr>) client st obj = fetchSecret E client st obj"
  by (simp add: fetchSecret_def readFromOpenBao_yaml parseFilePermission_yaml Let_def
      cong: option.case_cong sum.case_cong prod.case_cong)

lemma fetchEach_yaml:
  "fetchEach (E\<lparr>yamlUnmarshalObjects := f\<rparr>) client st objects = fetchEach E client st objects"
  by (induction objects arbitrary: st) (simp_all add: fetchSecret_yaml)

lemma example_key_dynamic:
  "cacheKey dynamicObject = ''secret/creds/app:password:db-creds''"
  by (simp add: cacheKey_def dynamicObject_def)

lemma example_fetch_short:
  assumes "cache_get (cache st) (cacheKey dynamicObject) (clock (reads st)) = None"
  shows "fst (fetchSecret (exampleCsiEnv clock (Inr (Some writtenShortID))) client st
      dynamicObject) = Inl (Panic ''slice bounds out of range'')"
proof -
  have "fst (readFromOpenBao (exampleCsiEnv clock (Inr (Some writtenShortID))) client
      dynamicObject) = Inl (Panic ''slice bounds out of range'')"
    unfolding readFromOpenBao_def Let_def example_paths
    by (simp add: exampleCsiEnv_sel dynamicObject_def writtenShortID_def)
  with assms show ?thesis
    by (cases "readFromOpenBao (exampleCsiEnv clock (Inr (Some writtenShortID))) client
        dynamicObject")
      (simp add: fetchSecret_def Let_def exampleCsiEnv_sel)
qed

lemma example_dynamic_panic:
  "firstPanic (fetchEach (dynamicCsiEnv (Inr (Some writtenShortID))) exampleAuthClient
     emptyFetcher [dbObject, dynamicObject]) = Some ''slice bounds out of range''"
proof -
  let ?E = "exampleCsiEnv exampleClock (Inr (Some writtenShortID))"
  have m0: "cache_get (cache emptyFetcher) (cacheKey dbObject) (exampleClock (reads emptyFetcher)) = None"
    by (simp add: cache_get_def emptyFetcher_def)
  from example_fetch_db [where st = emptyFetcher and clock = exampleClock
      and written = "Inr (Some writtenShortID)" and client = exampleAuthClient, OF m0] obtain st1
    where f: "fetchSecret ?E exampleAuthClient emptyFetcher dbObject = (Inr dbFetched, st1)"
      and c: "cache st1 = cache_set (cache emptyFetcher) (cacheKey dbObject) dbFetched
                (exampleClock (reads emptyFetcher + 1))"
    by blast
  have "cache_get (cache st1) (cacheKey dynamicObject) (exampleClock (reads st1)) = None"
    by (simp add: c cache_get_def cache_set_def emptyFetcher_def example_keys example_key_dynamic)
  from example_fetch_short [where st = st1 and clock = exampleClock
      and client = exampleAuthClient, OF this]
  have "fst (fetchSecret ?E exampleAuthClient st1 dynamicObject) =
      Inl (Panic ''slice bounds out of range'')" .
  with f show ?thesis
    unfolding dynamicCsiEnv_def fetchEach_yaml by simp
qed

lemma example_dynamic_mount:
  "decodeAttributes (dynamicCsiEnv written) exampleRequest =
     (Some [(''roleName'', ''app''), (''objects'', ''[objects]'')], None)"
  "decodeSecrets (dynamicCsiEnv written) exampleRequest =
     Some [(''csi.storage.k8s.io/serviceAccount.tokens'', ''jwt'')]"
  "parseMountParams (dynamicCsiEnv written) exampleProviderConfig
     (Some [(''roleName'', ''app''), (''objects'', ''[objects]'')]) = Inr dynamicParams"
  "Provider_authenticate (dynamicCsiEnv written) exampleProviderConfig dynamicParams
     (Some [(''csi.storage.k8s.io/serviceAccount.tokens'', ''jwt'')]) = Inr exampleAuthClient"
  "Objects dynamicParams = [dbObject, dynamicObject]"
  by (simp_all add: decodeAttributes_def decodeSecrets_def exampleRequest_def dynamicCsiEnv_def
      exampleCsiEnv_def parseMountParams_def exampleProviderConfig_def attribOr_def
      dynamicParams_def exampleParams_def Let_def Provider_authenticate_def
      NewAuthenticatedClient_def AuthenticatedClient_authenticate_def
      AuthenticatedClient_authenticateKubernetes_def loginResult_def exampleAuthClient_def
      DurationSeconds_def wrap64_def Second_def)

text \<open>
  Claim C3 on four requests: undecodable attributes, a role the backend refuses, the request
  with the absent object, and a request whose dynamic secret is answered with the request id
  \<open>0f3a\<close>.
\<close>

theorem Mount_error_codes_and_panic_witness:
  "snd (decodeAttributes (exampleCsiEnv exampleClock (Inr None))
          (exampleRequest\<lparr>Attributes := ''garbage''\<rparr>)) = Some ''invalid character'' \<and>
   Mount (exampleCsiEnv exampleClock (Inr None)) exampleProviderConfig emptyFetcher
     (exampleRequest\<lparr>Attributes := ''garbage''\<rparr>) =
     (Inr (errorResponse ''InvalidArgument''), emptyFetcher) \<and>
   Provider_authenticate (exampleCsiEnv exampleClock (Inr None)) exampleProviderConfig otherParams
     (Some [(''csi.storage.k8s.io/serviceAccount.tokens'', ''jwt'')]) =
     Inl ''authentication failed: kubernetes auth login failed: permission denied'' \<and>
   Mount (exampleCsiEnv exampleClock (Inr None)) exampleProviderConfig emptyFetcher
     (exampleRequest\<lparr>Attributes := ''{attributes of another role}''\<rparr>) =
     (Inr (errorResponse ''PermissionDenied''), emptyFetcher) \<and>
   fst (Mount (exampleCsiEnv exampleClock (Inr None)) exampleProviderConfig emptyFetcher
     exampleRequest) = Inr (errorResponse ''Internal'') \<and>
   clientWrite (dynamicCsiEnv (Inr (Some writtenShortID))) exampleAuthClient
     ''secret/data/creds/app'' [(''ttl'', JString ''1h'')] = Inr (Some writtenShortID) \<and>
   RequestID writtenShortID = ''0f3a'' \<and>
   fst (Mount (dynamicCsiEnv (Inr (Some writtenShortID))) exampleProviderConfig emptyFetcher
     exampleRequest) = Inl ''slice bounds out of range''"
proof -
  let ?E = "exampleCsiEnv exampleClock (Inr None)"
  let ?D = "dynamicCsiEnv (Inr (Some writtenShortID))"
  let ?bad = "exampleRequest\<lparr>Attributes := ''garbage''\<rparr>"
  let ?other = "exampleRequest\<lparr>Attributes := ''{attributes of another role}''\<rparr>"
  let ?secrets = "Some [(''csi.storage.k8s.io/serviceAccount.tokens'', ''jwt'')]"
  have d1: "snd (decodeAttributes ?E ?bad) = Some ''invalid character''"
    by (simp add: decodeAttributes_def exampleRequest_def exampleCsiEnv_def)
  with Mount_error_codes_and_panic [where E = ?E and req = ?bad and cfg = exampleProviderConfig
      and st = emptyFetcher]
  have a: "Mount ?E exampleProviderConfig emptyFetcher ?bad =
      (Inr (errorResponse ''InvalidArgument''), emptyFetcher)" by simp
  have d2: "decodeAttributes ?E ?other =
      (Some [(''roleName'', ''other''), (''objects'', ''[objects]'')], None)"
    "decodeSecrets ?E ?other = ?secrets"
    by (simp_all add: decodeAttributes_def decodeSecrets_def exampleRequest_def exampleCsiEnv_def)
  have p2: "parseMountParams ?E exampleProviderConfig
      (Some [(''roleName'', ''other''), (''objects'', ''[objects]'')]) = Inr otherParams"
    by (simp add: parseMountParams_def exampleCsiEnv_def exampleProviderConfig_def attribOr_def
        otherParams_def exampleParams_def Let_def)
  have a2: "Provider_authenticate ?E exampleProviderConfig otherParams ?secrets =
      Inl ''authentication failed: kubernetes auth login failed: permission denied''"
    by (simp add: Provider_authenticate_def NewAuthenticatedClient_def
        AuthenticatedClient_authenticate_def AuthenticatedClient_authenticateKubernetes_def
        loginResult_def exampleCsiEnv_def exampleProviderConfig_def otherParams_def
        exampleParams_def Let_def)
  from Mount_error_codes_and_panic [where E = ?E and req = ?other and cfg = exampleProviderConfig
      and params = otherParams and st = emptyFetcher
      and err = "''authentication failed: kubernetes auth login failed: permission denied''"]
    d2 p2 a2
  have b: "Mount ?E exampleProviderConfig emptyFetcher ?other =
      (Inr (errorResponse ''PermissionDenied''), emptyFetcher)" by simp
  have "fst (FetchSecrets_loop ?E exampleAuthClient emptyFetcher
      [dbObject, missingObject, apiObject] [] []) =
      Inr ([dbFetched, apiFetched],
        [''failed to fetch missing: no data found at path: secret/data/none''])"
    using FetchSecrets_loop_outcomes [OF example_panicFree, of exampleClock "Inr None"
        exampleAuthClient "[]" "[]"]
    unfolding example_outcomes by (simp add: example_names del: FetchSecrets_loop.simps)
  then have "\<exists>msg st'. FetchSecrets ?E exampleAuthClient emptyFetcher
      (Objects exampleParams) = (Inr ([dbFetched, apiFetched], Some msg), st')"
    unfolding example_objects
    by (cases "FetchSecrets_loop ?E exampleAuthClient emptyFetcher
      [dbObject, missingObject, apiObject] [] []")
      (simp add: FetchSecrets_def del: FetchSecrets_loop.simps)
  then obtain msg st' where f: "FetchSecrets ?E exampleAuthClient emptyFetcher
      (Objects exampleParams) = (Inr ([dbFetched, apiFetched], Some msg), st')"
    by blast
  from Mount_error_codes_and_panic [where E = ?E and req = exampleRequest
      and cfg = exampleProviderConfig
      and params = exampleParams and st = emptyFetcher and authClient = exampleAuthClient
      and fetched = "[dbFetched, apiFetched]" and st' = st' and err = msg] f
  have "Mount ?E exampleProviderConfig emptyFetcher exampleRequest =
      (Inr (errorResponse ''Internal''), st')"
    by (simp add: example_decode example_params example_auth)
  then have c: "fst (Mount ?E exampleProviderConfig emptyFetcher exampleRequest) =
      Inr (errorResponse ''Internal'')" by simp
  have w: "clientWrite ?D exampleAuthClient ''secret/data/creds/app'' [(''ttl'', JString ''1h'')] =
      Inr (Some writtenShortID)" "RequestID writtenShortID = ''0f3a''"
    by (simp_all add: dynamicCsiEnv_def exampleCsiEnv_sel writtenShortID_def)
  from Mount_error_codes_and_panic [where E = ?D and req = exampleRequest
      and cfg = exampleProviderConfig and params = dynamicParams and st = emptyFetcher
      and authClient = exampleAuthClient and msg = "''slice bounds out of range''"]
    example_dynamic_panic
  have d: "fst (Mount ?D exampleProviderConfig emptyFetcher exampleRequest) =
      Inl ''slice bounds out of range''"
    by (simp add: example_dynamic_mount)
  from d1 a a2 b c w d show ?thesis by simp
qed


text \<open>
  The amended claim C9 on a write answered with a request id of 13 bytes, on one answered
  with 4 bytes, and on a plain read.
\<close>

theorem readFromOpenBao_dynamic_version_witness:
  "length (SecretArgs dynamicObject) > 0 \<and>
   length (RequestID writtenSecret) \<ge> 8 \<and>
   fst (readFromOpenBao (exampleCsiEnv exampleClock (Inr (Some writtenSecret))) exampleAuthClient
          dynamicObject) = Inr (''pw'', ''0f3a9c2e'') \<and>
   length (RequestID writtenShortID) < 8 \<and>
   fst (readFromOpenBao (exampleCsiEnv exampleClock (Inr (Some writtenShortID))) exampleAuthClient
          dynamicObject) = Inl (Panic ''slice bounds out of range'') \<and>
   length (SecretArgs apiObject) = 0 \<and>
   fst (readFromOpenBao (exampleCsiEnv exampleClock (Inr None)) exampleAuthClient apiObject) =
     Inr (''k-123'', ''1'')"
proof -
  have args: "length (SecretArgs dynamicObject) > 0" "length (SecretArgs apiObject) = 0"
    "map (\<lambda>(k, v). (k, JString v)) (SecretArgs dynamicObject) = [(''ttl'', JString ''1h'')]"
    by (simp_all add: dynamicObject_def apiObject_def)
  have ids: "length (RequestID writtenSecret) \<ge> 8" "length (RequestID writtenShortID) < 8"
    "take 8 (RequestID writtenSecret) = ''0f3a9c2e''"
    "Secret.Data writtenSecret = Some [(''password'', JString ''pw'')]"
    "Secret.Data writtenShortID = Some [(''password'', JString ''pw'')]"
    by (simp_all add: writtenSecret_def writtenShortID_def)
  have ex: "extractContent E (JObject [(''password'', JString ''pw'')]) dynamicObject = Inr ''pw''"
    if "fmtValue E = exampleSprintv" for E
    using that by (simp add: extractContent_def dynamicObject_def exampleSprintv_def)
  note t = readFromOpenBao_dynamic_version [where client = exampleAuthClient]
  from t [where E = "exampleCsiEnv exampleClock (Inr (Some writtenSecret))"
      and obj = dynamicObject and resp = writtenSecret
      and respData = "[(''password'', JString ''pw'')]"] args ids
  have a: "fst (readFromOpenBao (exampleCsiEnv exampleClock (Inr (Some writtenSecret)))
      exampleAuthClient dynamicObject) = Inr (''pw'', ''0f3a9c2e'')"
    by (simp add: exampleCsiEnv_sel ex)
  from t [where E = "exampleCsiEnv exampleClock (Inr (Some writtenShortID))"
      and obj = dynamicObject and resp = writtenShortID
      and respData = "[(''password'', JString ''pw'')]"] args ids
  have b: "fst (readFromOpenBao (exampleCsiEnv exampleClock (Inr (Some writtenShortID)))
      exampleAuthClient dynamicObject) = Inl (Panic ''slice bounds out of range'')"
    by (simp add: exampleCsiEnv_sel)
  have ex2: "extractContent E (JObject [(''key'', JString ''k-123'')]) apiObject = Inr ''k-123''"
    if "fmtValue E = exampleSprintv" for E
    using that by (simp add: extractContent_def apiObject_def exampleSprintv_def)
  from t [where E = "exampleCsiEnv exampleClock (Inr None)" and obj = apiObject
      and resp = "\<lparr>RequestID = ''5b7d'',
                 Secret.Data = Some [(''data'', JObject [(''key'', JString ''k-123'')])],
                 Auth = None\<rparr>"
      and respData = "[(''data'', JObject [(''key'', JString ''k-123'')])]"
      and found = "JObject [(''key'', JString ''k-123'')]"] args
  have c: "fst (readFromOpenBao (exampleCsiEnv exampleClock (Inr None)) exampleAuthClient
      apiObject) = Inr (''k-123'', ''1'')"
    by (simp add: exampleCsiEnv_sel example_paths metadataVersion_def ex2)
  from args ids a b c show ?thesis by simp
qed

text \<open>
  Claim C9 as first stated fails on a non-nil response without \<open>Data\<close>: the fetch returns an
  error and no version at all.
\<close>

theorem readFromOpenBao_no_data_counterexample:
  "length (SecretArgs dynamicObject) > 0 \<and>
   clientWrite (exampleCsiEnv exampleClock (Inr (Some writtenNoData))) exampleAuthClient
     (backendPath (SecretObject.SecretPath dynamicObject))
     (map (\<lambda>(k, v). (k, JString v)) (SecretArgs dynamicObject)) = Inr (Some writtenNoData) \<and>
   take 8 (RequestID writtenNoData) = ''0f3a9c2e'' \<and>
   fst (readFromOpenBao (exampleCsiEnv exampleClock (Inr (Some writtenNoData))) exampleAuthClient
          dynamicObject) = Inl (Err ''no data returned from path: secret/data/creds/app'')"
  unfolding readFromOpenBao_def Let_def example_paths
  by (simp add: exampleCsiEnv_sel dynamicObject_def writtenNoData_def)

end
